theory Spec2Isabelle
  imports Main
begin

section \<open>Python exceptions and the file system\<close>

text \<open>
  The three source files are Python scripts. An exception is a value of \<open>error\<close>, and a
  function that may raise returns \<open>error + 'a\<close> (\<open>Inl\<close> is the raise). \<open>LibraryError\<close>
  stands for whatever the numerical code of the MNE library raises on data it cannot
  process; its content is opaque to the scripts.
\<close>

datatype error =
    ValueError string
  | AssertionError
  | IndexError
  | KeyError string
  | FileNotFoundError
  | FileExistsError
  | IsADirectoryError
  | NotADirectoryError
  | ImportError
  | LibraryError string

text \<open>
  A path is the list of the names on it, read from the working directory: the string
  \<^verbatim>\<open>'data/MEG'\<close> is \<open>[''data'', ''MEG'']\<close>, the empty string is the empty list, and
  \<^verbatim>\<open>os.path.join(p, 'subjects')\<close> is \<open>p @ [''subjects'']\<close>. The names are taken to be plain
  (\<open>plain\<close> below): none is empty, \<^verbatim>\<open>.\<close> or \<^verbatim>\<open>..\<close>, none holds a \<^verbatim>\<open>/\<close>, and there are no
  symbolic links, so that two paths are the same location only if they are the same
  list. A name is a string of 8-bit characters, so every name can be encoded for the
  operating system; it may hold any other character, the NUL character too, which the
  calls of the operating system refuse. A file carries its modification time.
\<close>

type_synonym path = "string list"

datatype node = Dir | File nat

type_synonym filesystem = "path \<Rightarrow> node option"

definition plain :: "path \<Rightarrow> bool" where
  "plain p = (\<forall>n \<in> set p. n \<noteq> [] \<and> n \<noteq> ''.'' \<and> n \<noteq> ''..'' \<and> CHR ''/'' \<notin> set n)"

text \<open>
  \<open>isdir fs p\<close> and \<open>isfile fs p\<close> say what is at the location \<open>p\<close>; as the parent of a
  path of one name the empty list is the working directory, which is a directory.
\<close>

definition isdir :: "filesystem \<Rightarrow> path \<Rightarrow> bool" where
  "isdir fs p = (p = [] \<or> fs p = Some Dir)"

definition isfile :: "filesystem \<Rightarrow> path \<Rightarrow> bool" where
  "isfile fs p = (case fs p of Some (File t) \<Rightarrow> True | _ \<Rightarrow> False)"

text \<open>
  The operating system resolves a path name by name. \<open>ancestors p\<close> are the directories
  it walks through, outermost first; the walk stops at the first of them that is not a
  directory, with FileNotFoundError when nothing is there and NotADirectoryError when a
  file is there.
\<close>

definition has_nul :: "path \<Rightarrow> bool" where
  "has_nul p = (\<exists>n \<in> set p. CHR 0x00 \<in> set n)"

definition ancestors :: "path \<Rightarrow> path list" where
  "ancestors p = map (\<lambda>k. take k p) [1..<length p]"

definition blocked :: "filesystem \<Rightarrow> path \<Rightarrow> error option" where
  "blocked fs p =
     (case filter (\<lambda>q. fs q \<noteq> Some Dir) (ancestors p) of
        [] \<Rightarrow> None
      | q # qs \<Rightarrow> if fs q = None then Some FileNotFoundError else Some NotADirectoryError)"

text \<open>
  \<^verbatim>\<open>os.path.isdir(p)\<close> is false for the empty string and for a path with a NUL character
  (it catches the error of \<^verbatim>\<open>os.stat\<close>), and otherwise true when the walk arrives at a
  directory.
\<close>

definition os_path_isdir :: "filesystem \<Rightarrow> path \<Rightarrow> bool" where
  "os_path_isdir fs p = (p \<noteq> [] \<and> \<not> has_nul p \<and> blocked fs p = None \<and> fs p = Some Dir)"

text \<open>
  \<^verbatim>\<open>os.mkdir(p)\<close> makes one directory level. It raises ValueError on a NUL character,
  FileNotFoundError on the empty string, the error of the walk when an ancestor is not a
  directory, and FileExistsError when anything is at \<open>p\<close> already. Not modelled:
  permissions, limits on the length of names, full or read-only devices. The time
  stamp of the parent directory is not modelled either: directories carry none.
\<close>

definition os_mkdir :: "path \<Rightarrow> filesystem \<Rightarrow> error + filesystem" where
  "os_mkdir p fs =
     (if has_nul p then Inl (ValueError ''embedded null byte'')
      else if p = [] then Inl FileNotFoundError
      else
        (case blocked fs p of
           Some e \<Rightarrow> Inl e
         | None \<Rightarrow> if fs p \<noteq> None then Inl FileExistsError else Inr (fs(p \<mapsto> Dir))))"

text \<open>
  An \<^verbatim>\<open>import\<close> of a package that is not installed raises ImportError. What the imports
  of \<^verbatim>\<open>numpy\<close> (config.py, line 11) and of \<^verbatim>\<open>mne\<close> (04-make\_epochs.py, lines 15 and 16)
  raise, if anything, is a parameter.
\<close>

record installation =
  numpy_import :: "error option"
  mne_import :: "error option"

section \<open>config.py: the settings module of the epoching script\<close>

text \<open>
  The module is a flat list of assignments; \<open>study_config\<close> holds the ones the two
  scripts and the module's own statements read. \<open>default_config\<close> is the file as shipped.
\<close>

record study_config =
  study_path :: path
  study_name :: string
  subjects_list :: "string list"
  exclude_subjects :: "string list"
  runs :: "string list"
  ch_types :: "string list"
  use_maxwell_filter :: bool
  use_ssp :: bool
  use_ica :: bool
  N_JOBS :: int
  plot :: bool

definition default_config :: study_config where
  "default_config =
     \<lparr> study_path = [''data''], study_name = ''Localizer'',
       subjects_list = [''SB01''], exclude_subjects = [],
       runs = [''''], ch_types = [''meg''],
       use_maxwell_filter = True, use_ssp = False, use_ica = True,
       N_JOBS = 1, plot = False \<rparr>"

text \<open>\<^verbatim>\<open>subjects_dir = os.path.join(study_path, 'subjects')\<close>, and likewise \<open>meg_dir\<close>.\<close>

definition subjects_dir :: "study_config \<Rightarrow> path" where
  "subjects_dir c = study_path c @ [''subjects'']"

definition meg_dir :: "study_config \<Rightarrow> path" where
  "meg_dir c = study_path c @ [''MEG'']"

text \<open>
  \<^verbatim>\<open>base_fname = '{subject}_' + study_name + '{extension}.fif'\<close>, filled in by
  \<^verbatim>\<open>base_fname.format(**locals())\<close> (a study name without format braces).
\<close>

definition base_fname :: "study_config \<Rightarrow> string \<Rightarrow> string \<Rightarrow> string" where
  "base_fname c subject extension = subject @ ''_'' @ study_name c @ extension @ ''.fif''"

text \<open>
  Lines 627 to 631: \<^verbatim>\<open>if not os.path.isdir(p): os.mkdir(p)\<close>, for \<open>study_path\<close> and then
  for \<open>subjects_dir\<close>.
\<close>

definition mkdir_unless_isdir :: "path \<Rightarrow> filesystem \<Rightarrow> error + filesystem" where
  "mkdir_unless_isdir p fs = (if \<not> os_path_isdir fs p then os_mkdir p fs else Inr fs)"

definition make_dirs :: "study_config \<Rightarrow> filesystem \<Rightarrow> error + filesystem" where
  "make_dirs c fs =
     (case mkdir_unless_isdir (study_path c) fs of
        Inl e \<Rightarrow> Inl e
      | Inr fs1 \<Rightarrow> mkdir_unless_isdir (subjects_dir c) fs1)"

text \<open>
  Lines 681 to 686, the CHECKS:
  \<^verbatim>\<open>len(set(ch_types).intersection(('meg', 'grad', 'mag'))) == 0\<close> counts the distinct
  channel types that are one of the three.
\<close>

definition meg_ch_types :: "string list \<Rightarrow> string list" where
  "meg_ch_types cts = filter (\<lambda>t. t \<in> set [''meg'', ''grad'', ''mag'']) (remdups cts)"

definition CHECKS :: "study_config \<Rightarrow> error + unit" where
  "CHECKS c =
     (if use_maxwell_filter c \<and> length (meg_ch_types (ch_types c)) = 0
      then Inl (ValueError ''Cannot use maxwell filter without MEG channels.'')
      else if use_ssp c \<and> use_ica c
      then Inl (ValueError ''Cannot use both SSP and ICA.'')
      else Inr ())"

text \<open>
  Loading the module (\<^verbatim>\<open>import config\<close>) runs the imports, the assignments, the
  directory statements and then the CHECKS. The file system it leaves is returned beside
  the outcome, since a directory made before a raise stays. \<open>before_CHECKS\<close> is all that
  can raise ahead of the CHECKS.
\<close>

definition before_CHECKS :: "installation \<Rightarrow> study_config \<Rightarrow> filesystem \<Rightarrow> error + filesystem" where
  "before_CHECKS inst c fs =
     (case numpy_import inst of Some e \<Rightarrow> Inl e | None \<Rightarrow> make_dirs c fs)"

definition load_config ::
  "installation \<Rightarrow> study_config \<Rightarrow> filesystem \<Rightarrow> (error + unit) \<times> filesystem" where
  "load_config inst c fs =
     (case numpy_import inst of
        Some e \<Rightarrow> (Inl e, fs)
      | None \<Rightarrow>
          (case mkdir_unless_isdir (study_path c) fs of
             Inl e \<Rightarrow> (Inl e, fs)
           | Inr fs1 \<Rightarrow>
               (case mkdir_unless_isdir (subjects_dir c) fs1 of
                  Inl e \<Rightarrow> (Inl e, fs1)
                | Inr fs2 \<Rightarrow> (CHECKS c, fs2))))"

section \<open>04-make\_epochs.py: the pool size\<close>

text \<open>Line 22: \<^verbatim>\<open>N_JOBS = max(config.N_JOBS // 4, 1)\<close>, on Python's unbounded integers.\<close>

definition epochs_N_JOBS :: "study_config \<Rightarrow> int" where
  "epochs_N_JOBS c = max (N_JOBS c div 4) 1"

section \<open>04-make\_epochs.py: the step body and the batch\<close>

text \<open>
  The script reads and writes files, so its functions pass a \<open>world\<close>: the file system
  and a clock whose value a written file takes as its modification time.
\<close>

record world =
  files :: filesystem
  clock :: nat

text \<open>
  What the MNE library does is outside the script. \<open>read_raises\<close> is what a reader raises
  on the content of an existing file, \<open>epochs_raises\<close> what concatenation, referencing and
  epoching raise on a subject's data, and \<open>save_overwrites\<close> whether \<^verbatim>\<open>epochs.save(fname)\<close>,
  called without an overwrite argument, replaces an existing file or raises
  (this differs between library versions). \<open>plot_raises\<close> is what the two plotting
  calls raise, for instance without a display. The content of a file is not modelled,
  so what the library raises is a function of the path and of the subject; the script
  changes no input file. \<open>pool_picks\<close> and \<open>pool_in_flight\<close> are the choices of a pool of
  several workers (see \<open>make_epochs_batch\<close>).
\<close>

record mne_library =
  read_raises :: "path \<Rightarrow> error option"
  epochs_raises :: "string \<Rightarrow> error option"
  save_overwrites :: bool
  plot_raises :: "string \<Rightarrow> error option"
  pool_picks :: "nat list"
  pool_in_flight :: nat

definition read_file :: "mne_library \<Rightarrow> filesystem \<Rightarrow> path \<Rightarrow> error + path" where
  "read_file lib fs p =
     (case fs p of
        None \<Rightarrow> Inl FileNotFoundError
      | Some Dir \<Rightarrow> Inl IsADirectoryError
      | Some (File t) \<Rightarrow> (case read_raises lib p of Some e \<Rightarrow> Inl e | None \<Rightarrow> Inr p))"

definition touch :: "path \<Rightarrow> world \<Rightarrow> world" where
  "touch p w = w\<lparr> files := (files w)(p \<mapsto> File (clock w)), clock := Suc (clock w) \<rparr>"

definition save_file :: "bool \<Rightarrow> path \<Rightarrow> world \<Rightarrow> error + world" where
  "save_file overwrite p w =
     (case files w p of
        Some Dir \<Rightarrow> Inl IsADirectoryError
      | Some (File t) \<Rightarrow> if overwrite then Inr (touch p w) else Inl FileExistsError
      | None \<Rightarrow> if isdir (files w) (butlast p) then Inr (touch p w) else Inl FileNotFoundError)"

text \<open>
  \<^verbatim>\<open>os.path.splitext(f)[0]\<close> on a file name: the part before the last dot, unless only
  dots come before it.
\<close>

definition splitext_root :: "string \<Rightarrow> string" where
  "splitext_root f =
     (let stem = rev (drop 1 (dropWhile (\<lambda>ch. ch \<noteq> CHR ''.'') (rev f)))
      in if CHR ''.'' \<in> set f \<and> (\<exists>ch \<in> set stem. ch \<noteq> CHR ''.'') then stem else f)"

definition raw_fname_in :: "study_config \<Rightarrow> string \<Rightarrow> string \<Rightarrow> path" where
  "raw_fname_in c subject run =
     (let extension = (if use_maxwell_filter c then run @ ''_sss_raw'' else run @ ''_filt_raw'')
      in meg_dir c @ [subject] @ [base_fname c subject extension])"

definition eve_fname :: "study_config \<Rightarrow> string \<Rightarrow> string \<Rightarrow> path" where
  "eve_fname c subject run =
     butlast (raw_fname_in c subject run)
       @ [splitext_root (last (raw_fname_in c subject run)) @ ''-eve.fif'']"

definition epochs_fname :: "study_config \<Rightarrow> string \<Rightarrow> path" where
  "epochs_fname c subject = meg_dir c @ [subject] @ [base_fname c subject ''-epo'']"

text \<open>Lines 36 to 53: for each run, read the raw file and then its events file.\<close>

fun load_runs ::
  "mne_library \<Rightarrow> study_config \<Rightarrow> filesystem \<Rightarrow> string \<Rightarrow> string list \<Rightarrow> error + (path \<times> path) list"
where
  "load_runs lib c fs subject [] = Inr []"
| "load_runs lib c fs subject (run # rest) =
     (case read_file lib fs (raw_fname_in c subject run) of
        Inl e \<Rightarrow> Inl e
      | Inr raw \<Rightarrow>
          (case read_file lib fs (eve_fname c subject run) of
             Inl e \<Rightarrow> Inl e
           | Inr events \<Rightarrow>
               (case load_runs lib c fs subject rest of
                  Inl e \<Rightarrow> Inl e
                | Inr loaded \<Rightarrow> Inr ((raw, events) # loaded))))"

text \<open>
  \<open>run_epochs\<close>, lines 27 to 98. \<^verbatim>\<open>mne.concatenate_raws\<close> raises on an empty list of runs.
  The only write is \<^verbatim>\<open>epochs.save(epochs_fname)\<close>; nothing before it looks at the output
  file. With \<^verbatim>\<open>config.plot\<close> on, the plotting calls of lines 95 to 98 follow the save:
  they touch no file, but when they raise the unit fails with its output written.
\<close>

definition run_epochs :: "mne_library \<Rightarrow> study_config \<Rightarrow> string \<Rightarrow> world \<Rightarrow> (error + unit) \<times> world" where
  "run_epochs lib c subject w =
     (case load_runs lib c (files w) subject (runs c) of
        Inl e \<Rightarrow> (Inl e, w)
      | Inr raw_list \<Rightarrow>
          if raw_list = [] then (Inl (LibraryError ''concatenate_raws''), w)
          else
            (case epochs_raises lib subject of
               Some e \<Rightarrow> (Inl e, w)
             | None \<Rightarrow>
                 (case save_file (save_overwrites lib) (epochs_fname c subject) w of
                    Inl e \<Rightarrow> (Inl e, w)
                  | Inr w' \<Rightarrow>
                      if plot c
                      then (case plot_raises lib subject of
                              Some e \<Rightarrow> (Inl e, w')
                            | None \<Rightarrow> (Inr (), w'))
                      else (Inr (), w'))))"

text \<open>
  Lines 102 and 103: \<^verbatim>\<open>parallel, run_func, _ = parallel_func(run_epochs, n_jobs=N_JOBS)\<close>
  and \<^verbatim>\<open>parallel(run_func(subject) for subject in config.subjects_list)\<close>, with the
  \<^verbatim>\<open>N_JOBS\<close> of line 22. With one job \<^verbatim>\<open>parallel\<close> is \<^verbatim>\<open>list\<close> and \<^verbatim>\<open>run_func\<close> is the
  function itself: the units run in list order and the first exception leaves the
  comprehension. This is \<open>parallel_list\<close>.
\<close>

fun parallel_list ::
  "('u \<Rightarrow> 'w \<Rightarrow> (error + 'r) \<times> 'w) \<Rightarrow> 'u list \<Rightarrow> 'w \<Rightarrow> (error + 'r list) \<times> 'w"
where
  "parallel_list f [] w = (Inr [], w)"
| "parallel_list f (u # us) w =
     (case f u w of
        (Inl e, w1) \<Rightarrow> (Inl e, w1)
      | (Inr r, w1) \<Rightarrow>
          (case parallel_list f us w1 of
             (Inl e, w2) \<Rightarrow> (Inl e, w2)
           | (Inr rs, w2) \<Rightarrow> (Inr (r # rs), w2)))"

text \<open>
  With more than one job the units go to a pool of worker processes. The pool is
  library code and its scheduling is not fixed, so it is modelled by its choices: the
  units finish one at a time in an order of the pool's own (\<open>reorder\<close> takes them out of
  the list at the positions \<open>pool_picks\<close>, so every order can be chosen); when a unit
  raises, the \<open>pool_in_flight\<close> next units have been started already and run to their
  end, their outcome lost, and the exception reaches the caller; when none raises, the
  results come back in the order of the list. A unit is taken as one step: the units of
  different subjects read and write files of their own. (Without \<^verbatim>\<open>joblib\<close> the library
  falls back to one job, which is the order of the list with nothing in flight.)
\<close>

fun reorder :: "nat list \<Rightarrow> 'a list \<Rightarrow> 'a list" where
  "reorder picks [] = []"
| "reorder [] (x # xs) = x # xs"
| "reorder (k # picks) (x # xs) =
     (let i = k mod Suc (length xs)
      in ((x # xs) ! i) # reorder picks (take i (x # xs) @ drop (Suc i) (x # xs)))"

fun run_regardless :: "('u \<Rightarrow> 'w \<Rightarrow> (error + 'r) \<times> 'w) \<Rightarrow> 'u list \<Rightarrow> 'w \<Rightarrow> 'w" where
  "run_regardless f [] w = w"
| "run_regardless f (u # us) w = run_regardless f us (snd (f u w))"

fun pool_list ::
  "nat \<Rightarrow> ('u \<Rightarrow> 'w \<Rightarrow> (error + 'r) \<times> 'w) \<Rightarrow> 'u list \<Rightarrow> 'w \<Rightarrow> (error + 'r list) \<times> 'w"
where
  "pool_list m f [] w = (Inr [], w)"
| "pool_list m f (u # us) w =
     (case f u w of
        (Inl e, w1) \<Rightarrow> (Inl e, run_regardless f (take m us) w1)
      | (Inr r, w1) \<Rightarrow>
          (case pool_list m f us w1 of
             (Inl e, w2) \<Rightarrow> (Inl e, w2)
           | (Inr rs, w2) \<Rightarrow> (Inr (r # rs), w2)))"

definition epochs_units :: "study_config \<Rightarrow> string list" where
  "epochs_units c = subjects_list c"

text \<open>
  The results of the units are all \<^verbatim>\<open>None\<close>, so the list of results in the order of
  the pool is the list in the order of the subjects.
\<close>

definition make_epochs_batch ::
  "mne_library \<Rightarrow> study_config \<Rightarrow> world \<Rightarrow> (error + unit list) \<times> world" where
  "make_epochs_batch lib c w =
     (if epochs_N_JOBS c = 1
      then parallel_list (run_epochs lib c) (epochs_units c) w
      else pool_list (pool_in_flight lib) (run_epochs lib c)
             (reorder (pool_picks lib) (epochs_units c)) w)"

text \<open>
  The whole script: the imports of lines 13 to 16, \<^verbatim>\<open>import config\<close> (line 18), then
  the batch.
\<close>

definition make_epochs_script ::
  "installation \<Rightarrow> mne_library \<Rightarrow> study_config \<Rightarrow> world \<Rightarrow> (error + unit list) \<times> world" where
  "make_epochs_script inst lib c w =
     (case mne_import inst of
        Some e \<Rightarrow> (Inl e, w)
      | None \<Rightarrow>
          (case load_config inst c (files w) of
             (Inl e, fs') \<Rightarrow> (Inl e, w\<lparr> files := fs' \<rparr>)
           | (Inr u, fs') \<Rightarrow> make_epochs_batch lib c (w\<lparr> files := fs' \<rparr>)))"

text \<open>
  Inputs for the examples: an installation with both packages, a library that raises
  nothing (its pool, when there is one, takes the second unit first and has one more
  unit in flight), the same library failing on the data of subject SB02, and file
  systems by their entries.
\<close>

definition complete_installation :: installation where
  "complete_installation = \<lparr> numpy_import = None, mne_import = None \<rparr>"

definition quiet_mne :: "bool \<Rightarrow> mne_library" where
  "quiet_mne overwrite =
     \<lparr> read_raises = (\<lambda>p. None), epochs_raises = (\<lambda>s. None), save_overwrites = overwrite,
       plot_raises = (\<lambda>s. None), pool_picks = [1], pool_in_flight = 1 \<rparr>"

definition sb02_fails_mne :: mne_library where
  "sb02_fails_mne =
     (quiet_mne True) \<lparr> epochs_raises :=
       (\<lambda>s. if s = ''SB02'' then Some (LibraryError ''No matching events found'') else None) \<rparr>"

definition two_subjects :: study_config where
  "two_subjects = default_config \<lparr> subjects_list := [''SB01'', ''SB02''] \<rparr>"

definition sb02_only_fs :: filesystem where
  "sb02_only_fs = map_of
     [([''data''], Dir), ([''data'', ''subjects''], Dir), ([''data'', ''MEG''], Dir),
      ([''data'', ''MEG'', ''SB01''], Dir), ([''data'', ''MEG'', ''SB02''], Dir),
      ([''data'', ''MEG'', ''SB02'', ''SB02_Localizer_sss_raw.fif''], File 1),
      ([''data'', ''MEG'', ''SB02'', ''SB02_Localizer_sss_raw-eve.fif''], File 2)]"

definition sb01_fs :: "node option \<Rightarrow> filesystem" where
  "sb01_fs epo = (map_of
     [([''data''], Dir), ([''data'', ''subjects''], Dir), ([''data'', ''MEG''], Dir),
      ([''data'', ''MEG'', ''SB01''], Dir),
      ([''data'', ''MEG'', ''SB01'', ''SB01_Localizer_sss_raw.fif''], File 1),
      ([''data'', ''MEG'', ''SB01'', ''SB01_Localizer_sss_raw-eve.fif''], File 2)])
     ([''data'', ''MEG'', ''SB01'', ''SB01_Localizer-epo.fif''] := epo)"

definition both_subjects_fs :: filesystem where
  "both_subjects_fs = map_of
     [([''data''], Dir), ([''data'', ''subjects''], Dir), ([''data'', ''MEG''], Dir),
      ([''data'', ''MEG'', ''SB01''], Dir), ([''data'', ''MEG'', ''SB02''], Dir),
      ([''data'', ''MEG'', ''SB01'', ''SB01_Localizer_sss_raw.fif''], File 1),
      ([''data'', ''MEG'', ''SB01'', ''SB01_Localizer_sss_raw-eve.fif''], File 2),
      ([''data'', ''MEG'', ''SB02'', ''SB02_Localizer_sss_raw.fif''], File 3),
      ([''data'', ''MEG'', ''SB02'', ''SB02_Localizer_sss_raw-eve.fif''], File 4)]"

text \<open>Two file systems with the same entries, whatever the modification times.\<close>

definition forget_mtime :: "node \<Rightarrow> node" where
  "forget_mtime n = (case n of Dir \<Rightarrow> Dir | File t \<Rightarrow> File 0)"

definition same_entries :: "filesystem \<Rightarrow> filesystem \<Rightarrow> bool" where
  "same_entries fs1 fs2 = (\<forall>p. map_option forget_mtime (fs1 p) = map_option forget_mtime (fs2 p))"

section \<open>\_04\_make\_forward.py: paths, the snapshot and the input resolver\<close>

text \<open>
  A \<^verbatim>\<open>BIDSPath\<close> (class of the mne-bids library) is a record of entities. Only the
  assignment of entities is modelled: the library's validation of their values and the
  file name it derives from them are outside the script.
\<close>

record bids_path =
  bp_subject :: "string option"
  bp_session :: "string option"
  bp_task :: "string option"
  bp_acquisition :: "string option"
  bp_run :: "string option"
  bp_processing :: "string option"
  bp_recording :: "string option"
  bp_space :: "string option"
  bp_split :: "string option"
  bp_suffix :: "string option"
  bp_extension :: "string option"
  bp_datatype :: "string option"
  bp_root :: "path option"

text \<open>\<^verbatim>\<open>BIDSPath(subject=..., session=..., root=...)\<close>: every other entity is None.\<close>

definition BIDSPath :: "string option \<Rightarrow> string option \<Rightarrow> path option \<Rightarrow> bids_path" where
  "BIDSPath subject session root =
     \<lparr> bp_subject = subject, bp_session = session, bp_task = None, bp_acquisition = None,
       bp_run = None, bp_processing = None, bp_recording = None, bp_space = None,
       bp_split = None, bp_suffix = None, bp_extension = None, bp_datatype = None,
       bp_root = root \<rparr>"

text \<open>
  The keyword arguments of \<^verbatim>\<open>update(**cfg.source_info_path_update)\<close>: a dict from entity
  names to strings or None, applied in order.
\<close>

datatype entity =
    Subject | Session | Task | Acquisition | Run | Processing
  | Recording | Space | Split | Suffix | Extension | Datatype

fun update_entity :: "entity \<times> string option \<Rightarrow> bids_path \<Rightarrow> bids_path" where
  "update_entity (Subject, v) bp = bp\<lparr> bp_subject := v \<rparr>"
| "update_entity (Session, v) bp = bp\<lparr> bp_session := v \<rparr>"
| "update_entity (Task, v) bp = bp\<lparr> bp_task := v \<rparr>"
| "update_entity (Acquisition, v) bp = bp\<lparr> bp_acquisition := v \<rparr>"
| "update_entity (Run, v) bp = bp\<lparr> bp_run := v \<rparr>"
| "update_entity (Processing, v) bp = bp\<lparr> bp_processing := v \<rparr>"
| "update_entity (Recording, v) bp = bp\<lparr> bp_recording := v \<rparr>"
| "update_entity (Space, v) bp = bp\<lparr> bp_space := v \<rparr>"
| "update_entity (Split, v) bp = bp\<lparr> bp_split := v \<rparr>"
| "update_entity (Suffix, v) bp = bp\<lparr> bp_suffix := v \<rparr>"
| "update_entity (Extension, v) bp = bp\<lparr> bp_extension := v \<rparr>"
| "update_entity (Datatype, v) bp = bp\<lparr> bp_datatype := v \<rparr>"

definition bids_update :: "(entity \<times> string option) list \<Rightarrow> bids_path \<Rightarrow> bids_path" where
  "bids_update kwargs bp = fold update_entity kwargs bp"

text \<open>An artifact is at a BIDS path or at a plain path (\<^verbatim>\<open>pathlib.Path\<close>).\<close>

datatype location = BIDS bids_path | Plain path

text \<open>
  The configuration snapshot: the \<^verbatim>\<open>SimpleNamespace\<close> that \<open>get_config\<close> builds,
  lines 161 to 178, one field per keyword.
\<close>

record forward_cfg =
  cfg_task :: "string option"
  cfg_runs :: "string option list"
  cfg_datatype :: "string option"
  cfg_acq :: "string option"
  cfg_rec :: "string option"
  cfg_space :: "string option"
  cfg_mindist :: int
  cfg_spacing :: string
  cfg_use_template_mri :: "string option"
  cfg_adjust_coreg :: bool
  cfg_source_info_path_update :: "(entity \<times> string option) list"
  cfg_ch_types :: "string list"
  cfg_fs_subject :: string
  cfg_fs_subjects_dir :: path
  cfg_deriv_root :: path
  cfg_bids_root :: path

text \<open>
  The module \<^verbatim>\<open>config\<close> as this script imports it. That module is not the
  \<^verbatim>\<open>config.py\<close> above and is not among the sources, so what the script reads from it
  is a parameter: the attributes as they are, and for each getter function the value
  it returns (as a function of its argument where it has one).
\<close>

record pipeline_config =
  config_get_task :: "string option"
  config_get_runs :: "string option \<Rightarrow> string option list"
  config_get_datatype :: "string option"
  config_acq :: "string option"
  config_rec :: "string option"
  config_space :: "string option"
  config_mindist :: int
  config_spacing :: string
  config_use_template_mri :: "string option"
  config_adjust_coreg :: bool
  config_source_info_path_update :: "(entity \<times> string option) list"
  config_ch_types :: "string list"
  config_get_fs_subject :: "string option \<Rightarrow> string"
  config_get_fs_subjects_dir :: path
  config_get_deriv_root :: path
  config_get_bids_root :: path
  config_mri_t1_path_generator :: "(bids_path \<Rightarrow> bids_path) option"
  config_mri_landmarks_kind :: "(bids_path \<Rightarrow> string) option"
  config_run_source_estimation :: bool
  config_get_subjects :: "string list"
  config_get_sessions :: "string option list"

definition get_config :: "pipeline_config \<Rightarrow> string option \<Rightarrow> string option \<Rightarrow> forward_cfg" where
  "get_config g subject session =
     \<lparr> cfg_task = config_get_task g,
       cfg_runs = config_get_runs g subject,
       cfg_datatype = config_get_datatype g,
       cfg_acq = config_acq g,
       cfg_rec = config_rec g,
       cfg_space = config_space g,
       cfg_mindist = config_mindist g,
       cfg_spacing = config_spacing g,
       cfg_use_template_mri = config_use_template_mri g,
       cfg_adjust_coreg = config_adjust_coreg g,
       cfg_source_info_path_update = config_source_info_path_update g,
       cfg_ch_types = config_ch_types g,
       cfg_fs_subject = config_get_fs_subject g subject,
       cfg_fs_subjects_dir = config_get_fs_subjects_dir g,
       cfg_deriv_root = config_get_deriv_root g,
       cfg_bids_root = config_get_bids_root g \<rparr>"

text \<open>The \<^verbatim>\<open>BIDSPath(...)\<close> of lines 85 to 95, built again at lines 108 to 118.\<close>

definition forward_bids_path :: "forward_cfg \<Rightarrow> string \<Rightarrow> string option \<Rightarrow> bids_path" where
  "forward_bids_path cfg subject session =
     \<lparr> bp_subject = Some subject, bp_session = session, bp_task = cfg_task cfg,
       bp_acquisition = cfg_acq cfg, bp_run = None, bp_processing = None,
       bp_recording = cfg_rec cfg, bp_space = cfg_space cfg, bp_split = None,
       bp_suffix = None, bp_extension = Some ''.fif'', bp_datatype = cfg_datatype cfg,
       bp_root = Some (cfg_deriv_root cfg) \<rparr>"

text \<open>
  The derivatives the step writes: for each location its modification time, if it
  exists, and the clock.
\<close>

record forward_world =
  mtime_of :: "location \<Rightarrow> nat option"
  now :: nat

text \<open>
  \<open>get_input_fnames_forward\<close>, lines 84 to 102. The dict is the list of its items.
  \<^verbatim>\<open>_get_bem_conductivity\<close> comes from the absent \<^verbatim>\<open>config\<close> module: it is a
  parameter, and since its code is unknown it is given what any function of that module
  can reach, the module's settings \<open>g\<close> and the world \<open>w\<close>, and may raise or write.
  The resolver hands both on to it and uses neither itself; of the pair the helper
  returns only the tag is used.
\<close>

definition get_input_fnames_forward ::
  "(pipeline_config \<Rightarrow> forward_world \<Rightarrow> forward_cfg \<Rightarrow> (error + 'c \<times> string) \<times> forward_world)
     \<Rightarrow> pipeline_config \<Rightarrow> forward_world \<Rightarrow> forward_cfg \<Rightarrow> string \<Rightarrow> string option
     \<Rightarrow> (error + (string \<times> location) list) \<times> forward_world"
where
  "get_input_fnames_forward get_bem_conductivity g w cfg subject session =
     (let bids_path = forward_bids_path cfg subject session;
          info = BIDS (bids_update (cfg_source_info_path_update cfg) bids_path);
          bem_path = cfg_fs_subjects_dir cfg @ [cfg_fs_subject cfg] @ [''bem'']
      in case get_bem_conductivity g w cfg of
           (Inl e, w1) \<Rightarrow> (Inl e, w1)
         | (Inr (conductivity, tag), w1) \<Rightarrow>
             (Inr [(''info'', info),
                   (''bem'', Plain (bem_path @ [cfg_fs_subject cfg @ ''-'' @ tag @ ''-bem-sol.fif''])),
                   (''src'', Plain (bem_path @ [cfg_fs_subject cfg @ ''-'' @ cfg_spacing cfg @ ''-src.fif'']))],
              w1))"

section \<open>\_04\_make\_forward.py: the step body\<close>

text \<open>
  A head-to-MRI transform is a file to read or a matrix already computed. The keyword
  arguments of \<^verbatim>\<open>get_head_mri_trans\<close> are a record.
\<close>

datatype 'm trans = TransFile path | TransMatrix 'm

record trans_request =
  rq_bids_path :: bids_path
  rq_t1_bids_path :: "bids_path option"
  rq_fs_subject :: string
  rq_fs_subjects_dir :: path
  rq_kind :: "string option"

text \<open>
  The numerical work is done by library functions that the script only calls. Each is an
  arbitrary function of its arguments and of the world it reads, and may raise:
  \<open>read_info\<close> is \<^verbatim>\<open>mne.io.read_info\<close>, \<open>pick_info\<close> is \<^verbatim>\<open>mne.pick_info\<close> on the channels
  chosen by \<^verbatim>\<open>mne.pick_types\<close>, \<open>coregistration_fit\<close> is \<^verbatim>\<open>Coregistration(...)\<close> followed by
  \<^verbatim>\<open>fit_fiducials\<close>, and \<open>write_raises\<close> is what a writer raises, if anything.
  \<open>meg_in_ch_types\<close> is the helper of the absent \<^verbatim>\<open>config\<close> module.
\<close>

record ('i, 'm) forward_externals =
  read_info :: "forward_world \<Rightarrow> location \<Rightarrow> error + 'i"
  pick_info :: "'i \<Rightarrow> bool \<Rightarrow> bool \<Rightarrow> error + 'i"
  meg_in_ch_types :: "string list \<Rightarrow> bool"
  coregistration_fit :: "forward_world \<Rightarrow> 'i \<Rightarrow> string \<Rightarrow> path \<Rightarrow> error + 'm"
  get_head_mri_trans :: "forward_world \<Rightarrow> trans_request \<Rightarrow> error + 'm"
  make_forward_solution ::
    "forward_world \<Rightarrow> 'i \<Rightarrow> 'm trans \<Rightarrow> location \<Rightarrow> location \<Rightarrow> int \<Rightarrow> error + 'm"
  write_raises :: "location \<Rightarrow> error option"

text \<open>\<open>_prepare_trans_template\<close>, lines 22 to 40. \<^verbatim>\<open>isinstance(None, str)\<close> is false.\<close>

definition prepare_trans_template ::
  "('i, 'm) forward_externals \<Rightarrow> forward_world \<Rightarrow> forward_cfg \<Rightarrow> 'i \<Rightarrow> error + 'm trans"
where
  "prepare_trans_template ext w cfg info =
     (case cfg_use_template_mri cfg of
        None \<Rightarrow> Inl AssertionError
      | Some template \<Rightarrow>
          if template \<noteq> cfg_fs_subject cfg then Inl AssertionError
          else if cfg_fs_subject cfg \<noteq> ''fsaverage'' \<and> \<not> cfg_adjust_coreg cfg
          then Inl (ValueError
            ''Adjusting the coregistration is mandatory when using a template MRI different from fsaverage'')
          else if cfg_fs_subject cfg = ''fsaverage'' \<and> \<not> cfg_adjust_coreg cfg
          then Inr (TransFile (cfg_fs_subjects_dir cfg @ [cfg_fs_subject cfg] @ [''bem'']
                                 @ [cfg_fs_subject cfg @ ''-trans.fif'']))
          else
            (case coregistration_fit ext w info (cfg_fs_subject cfg) (cfg_fs_subjects_dir cfg) of
               Inl e \<Rightarrow> Inl e
             | Inr m \<Rightarrow> Inr (TransMatrix m)))"

text \<open>
  \<open>_prepare_trans\<close>, lines 43 to 81. The arguments it passes to \<^verbatim>\<open>get_head_mri_trans\<close>
  are computed first; lines 49 to 66 read \<^verbatim>\<open>config.mri_t1_path_generator\<close> and
  \<^verbatim>\<open>config.mri_landmarks_kind\<close> from the module, not from \<^verbatim>\<open>cfg\<close>. \<^verbatim>\<open>cfg.runs[0]\<close> raises
  IndexError on an empty list.
\<close>

definition t1_bids_path_of :: "pipeline_config \<Rightarrow> forward_cfg \<Rightarrow> bids_path \<Rightarrow> bids_path option" where
  "t1_bids_path_of g cfg bids_path =
     (case config_mri_t1_path_generator g of
        None \<Rightarrow> None
      | Some generator \<Rightarrow>
          (let t1 = generator (BIDSPath (bp_subject bids_path) (bp_session bids_path)
                                 (Some (cfg_bids_root cfg)));
               t1a = (if bp_suffix t1 = None then t1\<lparr> bp_suffix := Some ''T1w'' \<rparr> else t1);
               t1b = (if bp_datatype t1a = None then t1a\<lparr> bp_datatype := Some ''anat'' \<rparr> else t1a)
           in Some t1b))"

definition landmarks_kind_of :: "pipeline_config \<Rightarrow> bids_path \<Rightarrow> string option" where
  "landmarks_kind_of g bids_path =
     (case config_mri_landmarks_kind g of
        None \<Rightarrow> None
      | Some kind_of \<Rightarrow> Some (kind_of (BIDSPath (bp_subject bids_path) (bp_session bids_path) None)))"

definition prepare_trans_request ::
  "pipeline_config \<Rightarrow> forward_cfg \<Rightarrow> bids_path \<Rightarrow> error + trans_request"
where
  "prepare_trans_request g cfg bids_path =
     (let t1_bids_path = t1_bids_path_of g cfg bids_path;
          landmarks_kind = landmarks_kind_of g bids_path
      in case cfg_runs cfg of
           [] \<Rightarrow> Inl IndexError
         | run0 # others \<Rightarrow>
             Inr \<lparr> rq_bids_path = bids_path\<lparr> bp_run := run0, bp_root := Some (cfg_bids_root cfg),
                                             bp_extension := None \<rparr>,
                   rq_t1_bids_path = t1_bids_path,
                   rq_fs_subject = cfg_fs_subject cfg,
                   rq_fs_subjects_dir = cfg_fs_subjects_dir cfg,
                   rq_kind = landmarks_kind \<rparr>)"

definition prepare_trans ::
  "('i, 'm) forward_externals \<Rightarrow> pipeline_config \<Rightarrow> forward_world \<Rightarrow> forward_cfg \<Rightarrow> bids_path
     \<Rightarrow> error + 'm trans"
where
  "prepare_trans ext g w cfg bids_path =
     (case prepare_trans_request g cfg bids_path of
        Inl e \<Rightarrow> Inl e
      | Inr request \<Rightarrow>
          (case get_head_mri_trans ext w request of
             Inl e \<Rightarrow> Inl e
           | Inr m \<Rightarrow> Inr (TransMatrix m)))"

text \<open>Lines 139 to 142 of \<open>run_forward\<close>: which of the two prepares the transform.\<close>

definition forward_trans ::
  "('i, 'm) forward_externals \<Rightarrow> pipeline_config \<Rightarrow> forward_world \<Rightarrow> forward_cfg \<Rightarrow> 'i
     \<Rightarrow> bids_path \<Rightarrow> error + 'm trans"
where
  "forward_trans ext g w cfg info bids_path =
     (if cfg_use_template_mri cfg \<noteq> None then prepare_trans_template ext w cfg info
      else prepare_trans ext g w cfg bids_path)"

text \<open>Both writers are called with \<^verbatim>\<open>overwrite=True\<close>.\<close>

definition write_artifact ::
  "('i, 'm) forward_externals \<Rightarrow> location \<Rightarrow> forward_world \<Rightarrow> error + forward_world"
where
  "write_artifact ext loc w =
     (case write_raises ext loc of
        Some e \<Rightarrow> Inl e
      | None \<Rightarrow> Inr (w\<lparr> mtime_of := (mtime_of w)(loc \<mapsto> now w), now := Suc (now w) \<rparr>))"

definition out_trans :: "forward_cfg \<Rightarrow> string \<Rightarrow> string option \<Rightarrow> location" where
  "out_trans cfg subject session = BIDS ((forward_bids_path cfg subject session)\<lparr> bp_suffix := Some ''trans'' \<rparr>)"

definition out_forward :: "forward_cfg \<Rightarrow> string \<Rightarrow> string option \<Rightarrow> location" where
  "out_forward cfg subject session = BIDS ((forward_bids_path cfg subject session)\<lparr> bp_suffix := Some ''fwd'' \<rparr>)"

text \<open>
  \<open>run_forward\<close>, lines 107 to 154, the function under the \<^verbatim>\<open>failsafe_run\<close> decorator.
  \<^verbatim>\<open>in_files.pop(k)\<close> raises KeyError on a missing key.
\<close>

definition run_forward ::
  "('i, 'm) forward_externals \<Rightarrow> pipeline_config \<Rightarrow> forward_cfg \<Rightarrow> string \<Rightarrow> string option
     \<Rightarrow> (string \<times> location) list \<Rightarrow> forward_world
     \<Rightarrow> (error + (string \<times> location) list) \<times> forward_world"
where
  "run_forward ext g cfg subject session in_files w =
     (let bids_path = forward_bids_path cfg subject session in
      case map_of in_files ''info'' of
        None \<Rightarrow> (Inl (KeyError ''info''), w)
      | Some info_file \<Rightarrow>
      (case read_info ext w info_file of
        Inl e \<Rightarrow> (Inl e, w)
      | Inr info_all \<Rightarrow>
      (case pick_info ext info_all (meg_in_ch_types ext (cfg_ch_types cfg))
                      (''eeg'' \<in> set (cfg_ch_types cfg)) of
        Inl e \<Rightarrow> (Inl e, w)
      | Inr info \<Rightarrow>
      (case map_of in_files ''bem'' of
        None \<Rightarrow> (Inl (KeyError ''bem''), w)
      | Some bem \<Rightarrow>
      (case map_of in_files ''src'' of
        None \<Rightarrow> (Inl (KeyError ''src''), w)
      | Some src \<Rightarrow>
      (case forward_trans ext g w cfg info bids_path of
        Inl e \<Rightarrow> (Inl e, w)
      | Inr trans' \<Rightarrow>
      (case make_forward_solution ext w info trans' src bem (cfg_mindist cfg) of
        Inl e \<Rightarrow> (Inl e, w)
      | Inr fwd \<Rightarrow>
      (case write_artifact ext (out_trans cfg subject session) w of
        Inl e \<Rightarrow> (Inl e, w)
      | Inr w1 \<Rightarrow>
      (case write_artifact ext (out_forward cfg subject session) w1 of
        Inl e \<Rightarrow> (Inl e, w1)
      | Inr w2 \<Rightarrow>
          (Inr [(''trans'', out_trans cfg subject session),
                (''forward'', out_forward cfg subject session)], w2))))))))))"

text \<open>
  \<open>main\<close>, lines 182 to 203. The units are
  \<^verbatim>\<open>itertools.product(config.get_subjects(), config.get_sessions())\<close>. Four things that
  \<open>main\<close> calls are defined in the absent \<^verbatim>\<open>config\<close> module and are parameters:
  \<open>get_parallel_backend\<close> (what entering the \<^verbatim>\<open>with\<close> block raises, if anything; leaving
  it is taken to raise nothing and to pass on what was raised inside), \<open>parallel\<close> and
  \<open>run_func\<close> (the pair that
  \<^verbatim>\<open>parallel_func\<close> returns for \<open>run_forward\<close> under the \<^verbatim>\<open>failsafe_run\<close> decorator: the
  dispatcher, and the wrapped step, free to return a log entry or to raise) and
  \<open>save_logs\<close>. The snapshot is built by \<^verbatim>\<open>get_config(subject=subject)\<close>, without the
  session. \<open>forward_logs\<close> is the value of \<^verbatim>\<open>logs\<close>, lines 191 to 201; \<open>main\<close> itself
  returns \<^verbatim>\<open>None\<close>. The messages written to the logger are not modelled.
\<close>

definition forward_units :: "pipeline_config \<Rightarrow> (string \<times> string option) list" where
  "forward_units g = List.product (config_get_subjects g) (config_get_sessions g)"

record ('w, 'l) pipeline_functions =
  get_parallel_backend :: "error option"
  parallel ::
    "(string \<times> string option \<Rightarrow> 'w \<Rightarrow> (error + 'l) \<times> 'w) \<Rightarrow> (string \<times> string option) list \<Rightarrow> 'w
       \<Rightarrow> (error + 'l list) \<times> 'w"
  run_func :: "forward_cfg \<Rightarrow> string \<Rightarrow> string option \<Rightarrow> 'w \<Rightarrow> (error + 'l) \<times> 'w"
  save_logs :: "'l list \<Rightarrow> 'w \<Rightarrow> (error + unit) \<times> 'w"

definition forward_logs ::
  "('w, 'l) pipeline_functions \<Rightarrow> pipeline_config \<Rightarrow> 'w \<Rightarrow> (error + 'l list) \<times> 'w"
where
  "forward_logs fns g w =
     parallel fns
       (\<lambda>(subject, session). run_func fns (get_config g (Some subject) None) subject session)
       (forward_units g) w"

definition forward_main ::
  "('w, 'l) pipeline_functions \<Rightarrow> pipeline_config \<Rightarrow> 'w \<Rightarrow> (error + unit) \<times> 'w"
where
  "forward_main fns g w =
     (if \<not> config_run_source_estimation g then (Inr (), w)
      else
        (case get_parallel_backend fns of
           Some e \<Rightarrow> (Inl e, w)
         | None \<Rightarrow>
             (case forward_logs fns g w of
                (Inl e, w1) \<Rightarrow> (Inl e, w1)
              | (Inr logs, w1) \<Rightarrow> save_logs fns logs w1)))"

text \<open>Inputs for the examples: a study with a template MRI and one without.\<close>

definition example_pipeline :: pipeline_config where
  "example_pipeline =
     \<lparr> config_get_task = Some ''rest'',
       config_get_runs = (\<lambda>subject. [Some ''01'']),
       config_get_datatype = Some ''meg'',
       config_acq = None, config_rec = None, config_space = None,
       config_mindist = 5, config_spacing = ''oct6'',
       config_use_template_mri = None, config_adjust_coreg = False,
       config_source_info_path_update = [(Suffix, Some ''ave'')],
       config_ch_types = [''meg''],
       config_get_fs_subject = (\<lambda>subject. case subject of None \<Rightarrow> ''fsaverage'' | Some s \<Rightarrow> ''sub-'' @ s),
       config_get_fs_subjects_dir = [''derivatives'', ''freesurfer'', ''subjects''],
       config_get_deriv_root = [''derivatives'', ''mne-bids-pipeline''],
       config_get_bids_root = [''bids''],
       config_mri_t1_path_generator = None,
       config_mri_landmarks_kind = None,
       config_run_source_estimation = True,
       config_get_subjects = [''01'', ''02''],
       config_get_sessions = [Some ''a'', Some ''b''] \<rparr>"

definition template_cfg :: "string \<Rightarrow> bool \<Rightarrow> forward_cfg" where
  "template_cfg fs_subject adjust =
     (get_config example_pipeline (Some ''01'') None)
       \<lparr> cfg_use_template_mri := Some fs_subject, cfg_fs_subject := fs_subject,
         cfg_adjust_coreg := adjust \<rparr>"

definition quiet_externals :: "(unit, unit) forward_externals" where
  "quiet_externals =
     \<lparr> read_info = (\<lambda>w l. Inr ()), pick_info = (\<lambda>i meg eeg. Inr ()),
       meg_in_ch_types = (\<lambda>cts. ''meg'' \<in> set cts),
       coregistration_fit = (\<lambda>w i s d. Inr ()),
       get_head_mri_trans = (\<lambda>w r. Inr ()),
       make_forward_solution = (\<lambda>w i t s b d. Inr ()),
       write_raises = (\<lambda>l. None) \<rparr>"

definition empty_forward_world :: forward_world where
  "empty_forward_world = \<lparr> mtime_of = (\<lambda>l. None), now = 0 \<rparr>"

text \<open>
  A helper that returns the tag of a one-layer model whatever the settings and the
  world, the inputs of subject 01, session a that the resolver computes with it, and
  functions for \<open>main\<close> that run the units in order, log each unit and keep the log as
  the world.
\<close>

definition one_layer_helper ::
  "pipeline_config \<Rightarrow> forward_world \<Rightarrow> forward_cfg \<Rightarrow> (error + unit \<times> string) \<times> forward_world" where
  "one_layer_helper g w cfg = (Inr ((), ''5120''), w)"

definition example_in_files :: "(string \<times> location) list" where
  "example_in_files =
     [(''info'', BIDS \<lparr> bp_subject = Some ''01'', bp_session = Some ''a'', bp_task = Some ''rest'',
                        bp_acquisition = None, bp_run = None, bp_processing = None,
                        bp_recording = None, bp_space = None, bp_split = None,
                        bp_suffix = Some ''ave'', bp_extension = Some ''.fif'',
                        bp_datatype = Some ''meg'',
                        bp_root = Some [''derivatives'', ''mne-bids-pipeline''] \<rparr>),
      (''bem'', Plain [''derivatives'', ''freesurfer'', ''subjects'', ''sub-01'', ''bem'',
                       ''sub-01-5120-bem-sol.fif'']),
      (''src'', Plain [''derivatives'', ''freesurfer'', ''subjects'', ''sub-01'', ''bem'',
                       ''sub-01-oct6-src.fif''])]"

definition logging_functions ::
  "((string \<times> string option) list, string \<times> string option) pipeline_functions" where
  "logging_functions =
     \<lparr> get_parallel_backend = None, parallel = parallel_list,
       run_func = (\<lambda>cfg subject session logged. (Inr (subject, session), logged)),
       save_logs = (\<lambda>logs logged. (Inr (), logs)) \<rparr>"

text \<open>
  The same study with a T1 path generator set in the module (the T1 image is taken from
  the subject's recording without session), and a library whose \<^verbatim>\<open>get_head_mri_trans\<close>
  fails when it is given no T1 path.
\<close>

definition t1_generator_pipeline :: pipeline_config where
  "t1_generator_pipeline =
     example_pipeline \<lparr> config_mri_t1_path_generator := Some (\<lambda>bp. bp\<lparr> bp_session := None \<rparr>) \<rparr>"

definition needs_t1_externals :: "(unit, unit) forward_externals" where
  "needs_t1_externals =
     quiet_externals \<lparr> get_head_mri_trans :=
       (\<lambda>w request. if rq_t1_bids_path request = None then Inl (LibraryError ''no T1 image'')
                      else Inr ()) \<rparr>"

section \<open>Loading config.py\<close>

lemma meg_ch_types_empty:
  "(length (meg_ch_types cts) = 0) =
   (''meg'' \<notin> set cts \<and> ''grad'' \<notin> set cts \<and> ''mag'' \<notin> set cts)"
  by (auto simp: meg_ch_types_def filter_empty_conv)

lemma CHECKS_ValueError:
  "(\<exists>m. CHECKS c = Inl (ValueError m)) =
   ((use_maxwell_filter c \<and> ''meg'' \<notin> set (ch_types c) \<and> ''grad'' \<notin> set (ch_types c)
       \<and> ''mag'' \<notin> set (ch_types c))
    \<or> (use_ssp c \<and> use_ica c))"
  unfolding CHECKS_def meg_ch_types_empty by auto

lemma CHECKS_cases: "CHECKS c = Inr () \<or> (\<exists>m. CHECKS c = Inl (ValueError m))"
  by (simp add: CHECKS_def)

lemma load_config_before_CHECKS:
  "before_CHECKS inst c fs = Inr fs' \<Longrightarrow> load_config inst c fs = (CHECKS c, fs')"
  by (auto simp: before_CHECKS_def make_dirs_def load_config_def split: sum.splits option.splits)

lemma make_epochs_script_checks:
  "before_CHECKS inst c (files w) = Inr fs' \<Longrightarrow> CHECKS c = Inl e \<Longrightarrow> mne_import inst = None
     \<Longrightarrow> make_epochs_script inst lib c w = (Inl e, w\<lparr> files := fs' \<rparr>)"
  by (simp add: make_epochs_script_def load_config_before_CHECKS)






lemma filter_snoc_eq_Nil: "filter P xs = [] \<Longrightarrow> filter P (xs @ [x]) = (if P x then [x] else [])"
  by simp
















text \<open>
  Claim C8, as amended. Provided the statements of the module that run before the
  CHECKS raise nothing (the import of \<^verbatim>\<open>numpy\<close> and the two directory statements:
  \<open>before_CHECKS\<close> returns), loading raises a ValueError exactly when the Maxwell filter
  is on while \<open>ch_types\<close> holds none of \<open>meg\<close>, \<open>grad\<close>, \<open>mag\<close>, or SSP and ICA are both
  on; for every other combination the module loads without raising; and a ValueError
  ends the epoching script before any subject is processed, the world changed by the
  directories only.
\<close>

theorem load_config_value_error_iff:
  assumes "plain (study_path c)"
    and "before_CHECKS inst c (files w) = Inr fs'"
  shows
  "((\<exists>m. fst (load_config inst c (files w)) = Inl (ValueError m)) \<longleftrightarrow>
       (use_maxwell_filter c \<and> ''meg'' \<notin> set (ch_types c) \<and> ''grad'' \<notin> set (ch_types c)
           \<and> ''mag'' \<notin> set (ch_types c))
       \<or> (use_ssp c \<and> use_ica c))
   \<and> ((\<forall>m. fst (load_config inst c (files w)) \<noteq> Inl (ValueError m))
          \<longrightarrow> load_config inst c (files w) = (Inr (), fs'))
   \<and> (\<forall>m. fst (load_config inst c (files w)) = Inl (ValueError m) \<and> mne_import inst = None
          \<longrightarrow> make_epochs_script inst lib c w = (Inl (ValueError m), w\<lparr> files := fs' \<rparr>))"
proof -
  have l: "load_config inst c (files w) = (CHECKS c, fs')"
    using assms(2) by (rule load_config_before_CHECKS)
  have a: "(\<exists>m. fst (load_config inst c (files w)) = Inl (ValueError m)) \<longleftrightarrow>
        (use_maxwell_filter c \<and> ''meg'' \<notin> set (ch_types c) \<and> ''grad'' \<notin> set (ch_types c)
            \<and> ''mag'' \<notin> set (ch_types c))
        \<or> (use_ssp c \<and> use_ica c)"
    by (simp add: l CHECKS_ValueError)
  have b: "(\<forall>m. fst (load_config inst c (files w)) \<noteq> Inl (ValueError m))
           \<longrightarrow> load_config inst c (files w) = (Inr (), fs')"
    using CHECKS_cases [of c] by (auto simp: l)
  have c: "\<forall>m. fst (load_config inst c (files w)) = Inl (ValueError m) \<and> mne_import inst = None
           \<longrightarrow> make_epochs_script inst lib c w = (Inl (ValueError m), w\<lparr> files := fs' \<rparr>)"
    using assms(2) by (auto simp: l make_epochs_script_checks)
  from a b c show ?thesis by blast
qed

text \<open>
  The shipped settings on an empty working directory: both directories are made and
  the module loads. With SSP switched on as well the load raises the ValueError and the
  script stops there.
\<close>

theorem load_config_value_error_iff_witness:
  "plain (study_path default_config)
   \<and> before_CHECKS complete_installation default_config (files \<lparr> files = Map.empty, clock = 0 \<rparr>)
     = Inr (Map.empty([''data''] \<mapsto> Dir, [''data'', ''subjects''] \<mapsto> Dir))
   \<and> \<not> (use_ssp default_config \<and> use_ica default_config)
   \<and> load_config complete_installation default_config Map.empty
     = (Inr (), Map.empty([''data''] \<mapsto> Dir, [''data'', ''subjects''] \<mapsto> Dir))
   \<and> before_CHECKS complete_installation (default_config \<lparr> use_ssp := True \<rparr>)
        (files \<lparr> files = Map.empty, clock = 0 \<rparr>)
     = Inr (Map.empty([''data''] \<mapsto> Dir, [''data'', ''subjects''] \<mapsto> Dir))
   \<and> use_ssp (default_config \<lparr> use_ssp := True \<rparr>) \<and> use_ica (default_config \<lparr> use_ssp := True \<rparr>)
   \<and> fst (load_config complete_installation (default_config \<lparr> use_ssp := True \<rparr>) Map.empty)
     = Inl (ValueError ''Cannot use both SSP and ICA.'')
   \<and> make_epochs_script complete_installation (quiet_mne True) (default_config \<lparr> use_ssp := True \<rparr>)
        \<lparr> files = Map.empty, clock = 0 \<rparr>
     = (Inl (ValueError ''Cannot use both SSP and ICA.''),
        \<lparr> files = Map.empty([''data''] \<mapsto> Dir, [''data'', ''subjects''] \<mapsto> Dir), clock = 0 \<rparr>)"
proof -
  let ?w = "\<lparr> files = Map.empty, clock = 0 \<rparr>"
  let ?fs = "Map.empty([''data''] \<mapsto> Dir, [''data'', ''subjects''] \<mapsto> Dir) :: filesystem"
  have p: "plain (study_path default_config)" "plain (study_path (default_config \<lparr> use_ssp := True \<rparr>))"
    by (simp_all add: plain_def default_config_def)
  have d: "before_CHECKS complete_installation default_config (files ?w) = Inr ?fs"
     "before_CHECKS complete_installation (default_config \<lparr> use_ssp := True \<rparr>) (files ?w) = Inr ?fs"
    by (simp_all add: before_CHECKS_def complete_installation_def make_dirs_def default_config_def
        mkdir_unless_isdir_def os_path_isdir_def os_mkdir_def has_nul_def blocked_def ancestors_def
        subjects_dir_def)
  have s: "\<not> (use_ssp default_config \<and> use_ica default_config)"
    "use_ssp (default_config \<lparr> use_ssp := True \<rparr>)" "use_ica (default_config \<lparr> use_ssp := True \<rparr>)"
    "use_maxwell_filter default_config" "ch_types default_config = [''meg'']"
    "mne_import complete_installation = None"
    by (simp_all add: default_config_def complete_installation_def)
  have 1: "load_config complete_installation default_config Map.empty = (Inr (), ?fs)"
    using load_config_value_error_iff [OF p(1) d(1)] s by simp
  have 2: "fst (load_config complete_installation (default_config \<lparr> use_ssp := True \<rparr>) Map.empty)
     = Inl (ValueError ''Cannot use both SSP and ICA.'')"
    by (simp add: load_config_def complete_installation_def default_config_def mkdir_unless_isdir_def
        os_path_isdir_def os_mkdir_def has_nul_def blocked_def ancestors_def
        subjects_dir_def CHECKS_def meg_ch_types_def)
  have 3: "make_epochs_script complete_installation (quiet_mne True) (default_config \<lparr> use_ssp := True \<rparr>) ?w
     = (Inl (ValueError ''Cannot use both SSP and ICA.''), \<lparr> files = ?fs, clock = 0 \<rparr>)"
    using load_config_value_error_iff [OF p(2) d(2), where lib = "quiet_mne True"] 2 s(6)
    by simp
  from p d s 1 2 3 show ?thesis by simp
qed

text \<open>
  Claim C8 as stated fails in both directions. Where \<^verbatim>\<open>data\<close> is a regular file,
  \<^verbatim>\<open>os.path.isdir\<close> is false, \<^verbatim>\<open>os.mkdir\<close> raises FileExistsError and the CHECKS are never
  reached: the shipped settings are consistent and the load raises all the same, and
  with SSP and ICA both on the load raises, but not a ValueError. And with a NUL
  character in the study path \<^verbatim>\<open>os.mkdir\<close> raises a ValueError of its own, the settings
  as consistent as shipped.
\<close>

theorem config_load_os_error_counterexample:
  "fst (load_config complete_installation default_config (map_of [([''data''], File 0)]))
     = Inl FileExistsError
   \<and> \<not> (use_maxwell_filter default_config \<and> ''meg'' \<notin> set (ch_types default_config)
          \<and> ''grad'' \<notin> set (ch_types default_config) \<and> ''mag'' \<notin> set (ch_types default_config))
   \<and> \<not> (use_ssp default_config \<and> use_ica default_config)
   \<and> fst (load_config complete_installation (default_config \<lparr> use_ssp := True \<rparr>)
            (map_of [([''data''], File 0)]))
       = Inl FileExistsError
   \<and> use_ssp (default_config \<lparr> use_ssp := True \<rparr>)
   \<and> use_ica (default_config \<lparr> use_ssp := True \<rparr>)
   \<and> fst (load_config complete_installation
            (default_config \<lparr> study_path := [''da'' @ [CHR 0x00] @ ''ta''] \<rparr>) Map.empty)
       = Inl (ValueError ''embedded null byte'')
   \<and> use_maxwell_filter (default_config \<lparr> study_path := [''da'' @ [CHR 0x00] @ ''ta''] \<rparr>)
   \<and> ch_types (default_config \<lparr> study_path := [''da'' @ [CHR 0x00] @ ''ta''] \<rparr>) = [''meg'']
   \<and> \<not> use_ssp (default_config \<lparr> study_path := [''da'' @ [CHR 0x00] @ ''ta''] \<rparr>)"
  by (simp add: load_config_def complete_installation_def default_config_def mkdir_unless_isdir_def
      os_path_isdir_def os_mkdir_def has_nul_def blocked_def ancestors_def)

section \<open>The directories made by loading config.py\<close>




section \<open>The pool size of the epoching script\<close>

text \<open>
  Claim C7. The epoching script runs \<open>max (N_JOBS div 4) 1\<close> jobs, a quarter of the
  configured number rounded down and never less than one: one job for every \<open>N_JOBS\<close>
  below 8, with which the subjects run one after the other, and from 8 on the number \<open>k\<close>
  with \<open>4 * k \<le> N_JOBS < 4 * k + 4\<close>. For every configured \<open>N_JOBS\<close> of at least 1 that is
  at least 1 and at most \<open>N_JOBS\<close>, and smaller than \<open>N_JOBS\<close> from 5 on.
\<close>

theorem epochs_pool_size:
  "epochs_N_JOBS c = max (N_JOBS c div 4) 1
   \<and> (N_JOBS c < 8 \<longrightarrow> epochs_N_JOBS c = 1
        \<and> make_epochs_batch lib c w = parallel_list (run_epochs lib c) (subjects_list c) w)
   \<and> (8 \<le> N_JOBS c \<longrightarrow> epochs_N_JOBS c = N_JOBS c div 4 \<and> 2 \<le> epochs_N_JOBS c
        \<and> 4 * epochs_N_JOBS c \<le> N_JOBS c \<and> N_JOBS c < 4 * epochs_N_JOBS c + 4)
   \<and> (1 \<le> N_JOBS c \<longrightarrow> 1 \<le> epochs_N_JOBS c \<and> epochs_N_JOBS c \<le> N_JOBS c
        \<and> (5 \<le> N_JOBS c \<longrightarrow> epochs_N_JOBS c < N_JOBS c))"
proof -
  have a: "N_JOBS c < 8 \<longrightarrow> epochs_N_JOBS c = 1"
    unfolding epochs_N_JOBS_def by auto
  then have b: "N_JOBS c < 8 \<longrightarrow>
      make_epochs_batch lib c w = parallel_list (run_epochs lib c) (subjects_list c) w"
    by (simp add: make_epochs_batch_def epochs_units_def)
  have c: "8 \<le> N_JOBS c \<longrightarrow> epochs_N_JOBS c = N_JOBS c div 4 \<and> 2 \<le> epochs_N_JOBS c
        \<and> 4 * epochs_N_JOBS c \<le> N_JOBS c \<and> N_JOBS c < 4 * epochs_N_JOBS c + 4"
    unfolding epochs_N_JOBS_def by auto
  have d: "1 \<le> N_JOBS c \<longrightarrow> 1 \<le> epochs_N_JOBS c \<and> epochs_N_JOBS c \<le> N_JOBS c
        \<and> (5 \<le> N_JOBS c \<longrightarrow> epochs_N_JOBS c < N_JOBS c)"
    unfolding epochs_N_JOBS_def by auto
  from a b c d show ?thesis by (simp add: epochs_N_JOBS_def)
qed

text \<open>The pool sizes for 1, 5, 7, 8 and 100 configured jobs, and for none.\<close>

theorem epochs_pool_size_witness:
  "epochs_N_JOBS (default_config \<lparr> N_JOBS := 1 \<rparr>) = 1
   \<and> epochs_N_JOBS (default_config \<lparr> N_JOBS := 5 \<rparr>) = 1
   \<and> epochs_N_JOBS (default_config \<lparr> N_JOBS := 7 \<rparr>) = 1
   \<and> N_JOBS (default_config \<lparr> N_JOBS := 8 \<rparr>) = 8
   \<and> epochs_N_JOBS (default_config \<lparr> N_JOBS := 8 \<rparr>) = 2
   \<and> N_JOBS (default_config \<lparr> N_JOBS := 100 \<rparr>) = 100
   \<and> epochs_N_JOBS (default_config \<lparr> N_JOBS := 100 \<rparr>) = 25
   \<and> epochs_N_JOBS (default_config \<lparr> N_JOBS := 0 \<rparr>) = 1
   \<and> epochs_N_JOBS (default_config \<lparr> N_JOBS := - 3 \<rparr>) = 1"
proof -
  have 1: "epochs_N_JOBS (default_config \<lparr> N_JOBS := 1 \<rparr>) = 1"
    "epochs_N_JOBS (default_config \<lparr> N_JOBS := 5 \<rparr>) = 1"
    "epochs_N_JOBS (default_config \<lparr> N_JOBS := 7 \<rparr>) = 1"
    "epochs_N_JOBS (default_config \<lparr> N_JOBS := 0 \<rparr>) = 1"
    "epochs_N_JOBS (default_config \<lparr> N_JOBS := - 3 \<rparr>) = 1"
    using epochs_pool_size [where c = "default_config \<lparr> N_JOBS := 1 \<rparr>"]
      epochs_pool_size [where c = "default_config \<lparr> N_JOBS := 5 \<rparr>"]
      epochs_pool_size [where c = "default_config \<lparr> N_JOBS := 7 \<rparr>"]
      epochs_pool_size [where c = "default_config \<lparr> N_JOBS := 0 \<rparr>"]
      epochs_pool_size [where c = "default_config \<lparr> N_JOBS := - 3 \<rparr>"]
    by simp_all
  have 2: "epochs_N_JOBS (default_config \<lparr> N_JOBS := 8 \<rparr>) = 2"
    "epochs_N_JOBS (default_config \<lparr> N_JOBS := 100 \<rparr>) = 25"
    using epochs_pool_size [where c = "default_config \<lparr> N_JOBS := 8 \<rparr>"]
      epochs_pool_size [where c = "default_config \<lparr> N_JOBS := 100 \<rparr>"]
    by simp_all
  from 1 2 show ?thesis by simp
qed

section \<open>The batch and the step body of the epoching script\<close>

lemma parallel_list_length:
  "parallel_list f us w = (Inr rs, w') \<Longrightarrow> length rs = length us"
  by (induction us arbitrary: w rs w') (auto split: prod.splits sum.splits)

lemma parallel_list_first_error:
  "parallel_list f before w = (Inr rs0, w1) \<Longrightarrow> f u w1 = (Inl e, w2)
     \<Longrightarrow> parallel_list f (before @ u # rest) w = (Inl e, w2)"
  by (induction before arbitrary: w rs0) (auto split: prod.splits sum.splits)

lemma parallel_list_returns:
  "(\<And>u w. \<exists>r w'. f u w = (Inr r, w')) \<Longrightarrow> \<exists>rs w'. parallel_list f us w = (Inr rs, w')"
proof (induction us arbitrary: w)
  case Nil
  then show ?case by simp
next
  case (Cons u us)
  obtain r w1 where 1: "f u w = (Inr r, w1)" using Cons.prems by blast
  obtain rs w2 where 2: "parallel_list f us w1 = (Inr rs, w2)"
    using Cons.IH [OF Cons.prems] by blast
  show ?case by (simp add: 1 2)
qed

lemma parallel_list_establishes:
  assumes run: "parallel_list f us w = (Inr rs, w')"
    and est: "\<And>u w r w1. f u w = (Inr r, w1) \<Longrightarrow> Q u w1"
    and pres: "\<And>u v w r w1. Q u w \<Longrightarrow> f v w = (Inr r, w1) \<Longrightarrow> Q u w1"
  shows "(\<forall>u \<in> set us. Q u w') \<and> (\<forall>u. Q u w \<longrightarrow> Q u w')"
  using run
proof (induction us arbitrary: w rs)
  case Nil
  then show ?case by simp
next
  case (Cons v vs)
  from Cons.prems obtain r w1 rs1 where
    1: "f v w = (Inr r, w1)" and 2: "parallel_list f vs w1 = (Inr rs1, w')"
    by (auto split: prod.splits sum.splits)
  from Cons.IH [OF 2] have ih: "(\<forall>u \<in> set vs. Q u w') \<and> (\<forall>u. Q u w1 \<longrightarrow> Q u w')" .
  have "Q v w1" using est [OF 1] .
  moreover have "\<And>u. Q u w \<Longrightarrow> Q u w1" using pres 1 by blast
  ultimately show ?case using ih by auto
qed

lemma parallel_list_all_returned:
  "parallel_list f us w = (Inr rs, w') \<Longrightarrow> \<forall>u \<in> set us. \<exists>w0 r w1. f u w0 = (Inr r, w1)"
proof (induction us arbitrary: w rs)
  case Nil
  then show ?case by simp
next
  case (Cons v vs)
  from Cons.prems obtain r w1 rs1 where
    1: "f v w = (Inr r, w1)" and 2: "parallel_list f vs w1 = (Inr rs1, w')"
    by (auto split: prod.splits sum.splits)
  show ?case using 1 Cons.IH [OF 2] by auto
qed

lemma parallel_list_error_source:
  "fst (parallel_list f us w) = Inl e \<Longrightarrow> \<exists>u \<in> set us. \<exists>w0. fst (f u w0) = Inl e"
proof (induction us arbitrary: w)
  case Nil
  then show ?case by simp
next
  case (Cons v vs)
  show ?case
  proof (cases "f v w")
    case (Pair r w1)
    show ?thesis
    proof (cases r)
      case (Inl e1)
      then have "fst (f v w) = Inl e" using Cons.prems Pair by simp
      then show ?thesis by auto
    next
      case (Inr x)
      then have "fst (parallel_list f vs w1) = Inl e"
        using Cons.prems Pair by (auto split: prod.splits sum.splits)
      from Cons.IH [OF this] show ?thesis by auto
    qed
  qed
qed

lemma pool_list_Inr:
  "pool_list m f us w = (Inr rs, w') \<Longrightarrow> parallel_list f us w = (Inr rs, w')"
  by (induction us arbitrary: w rs) (auto split: prod.splits sum.splits)

lemma pool_list_error_source:
  "fst (pool_list m f us w) = Inl e \<Longrightarrow> \<exists>u \<in> set us. \<exists>w0. fst (f u w0) = Inl e"
proof (induction us arbitrary: w)
  case Nil
  then show ?case by simp
next
  case (Cons v vs)
  show ?case
  proof (cases "f v w")
    case (Pair r w1)
    show ?thesis
    proof (cases r)
      case (Inl e1)
      then have "fst (f v w) = Inl e" using Cons.prems Pair by simp
      then show ?thesis by auto
    next
      case (Inr x)
      then have "fst (pool_list m f vs w1) = Inl e"
        using Cons.prems Pair by (auto split: prod.splits sum.splits)
      from Cons.IH [OF this] show ?thesis by auto
    qed
  qed
qed

lemma reorder_set: "set (reorder picks xs) = set xs"
proof (induction picks xs rule: reorder.induct)
  case (1 picks)
  then show ?case by simp
next
  case (2 x xs)
  then show ?case by simp
next
  case (3 k picks x xs)
  let ?l = "x # xs"
  let ?i = "k mod Suc (length xs)"
  have i: "?i < length ?l" by simp
  have "set ?l = set (take ?i ?l @ ?l ! ?i # drop (Suc ?i) ?l)"
    using id_take_nth_drop [OF i] by simp
  then have "set ?l = insert (?l ! ?i) (set (take ?i ?l @ drop (Suc ?i) ?l))"
    by simp
  then show ?case
    using "3.IH" [of ?i] by (simp add: Let_def)
qed

lemma length_without_nth: "i < length l \<Longrightarrow> length (take i l @ drop (Suc i) l) = length l - 1"
  by simp

lemma reorder_length: "length (reorder picks xs) = length xs"
proof (induction picks xs rule: reorder.induct)
  case (1 picks)
  then show ?case by simp
next
  case (2 x xs)
  then show ?case by simp
next
  case (3 k picks x xs)
  have "k mod Suc (length xs) < length (x # xs)" by simp
  from length_without_nth [OF this]
  have "length (take (k mod Suc (length xs)) (x # xs) @ drop (Suc (k mod Suc (length xs))) (x # xs)) = length xs"
    by simp
  then show ?case
    using "3.IH" [of "k mod Suc (length xs)"] by (simp add: Let_def)
qed

lemma make_epochs_batch_Inr:
  assumes "make_epochs_batch lib c w = (Inr rs, w')"
  shows "\<exists>us. set us = set (subjects_list c) \<and> length us = length (subjects_list c)
           \<and> parallel_list (run_epochs lib c) us w = (Inr rs, w')"
proof (cases "epochs_N_JOBS c = 1")
  case True
  then have "parallel_list (run_epochs lib c) (subjects_list c) w = (Inr rs, w')"
    using assms by (simp add: make_epochs_batch_def epochs_units_def)
  then show ?thesis by (intro exI [of _ "subjects_list c"]) simp
next
  case False
  then have "pool_list (pool_in_flight lib) (run_epochs lib c)
               (reorder (pool_picks lib) (subjects_list c)) w = (Inr rs, w')"
    using assms by (simp add: make_epochs_batch_def epochs_units_def)
  then have "parallel_list (run_epochs lib c) (reorder (pool_picks lib) (subjects_list c)) w = (Inr rs, w')"
    by (rule pool_list_Inr)
  then show ?thesis
    by (intro exI [of _ "reorder (pool_picks lib) (subjects_list c)"])
       (simp add: reorder_set reorder_length)
qed

lemma make_epochs_batch_error_source:
  assumes "fst (make_epochs_batch lib c w) = Inl e"
  shows "\<exists>subject \<in> set (subjects_list c). \<exists>w0. fst (run_epochs lib c subject w0) = Inl e"
proof (cases "epochs_N_JOBS c = 1")
  case True
  then have "fst (parallel_list (run_epochs lib c) (subjects_list c) w) = Inl e"
    using assms by (simp add: make_epochs_batch_def epochs_units_def)
  then show ?thesis by (rule parallel_list_error_source)
next
  case False
  then have "fst (pool_list (pool_in_flight lib) (run_epochs lib c)
               (reorder (pool_picks lib) (subjects_list c)) w) = Inl e"
    using assms by (simp add: make_epochs_batch_def epochs_units_def)
  from pool_list_error_source [OF this] show ?thesis
    unfolding reorder_set .
qed

lemma save_file_Inr: "save_file ov p w = Inr w' \<Longrightarrow> w' = touch p w"
  by (auto simp: save_file_def split: option.splits node.splits if_splits)

lemma run_epochs_Inr:
  "run_epochs lib c subject w = (Inr u, w') \<Longrightarrow>
     w' = touch (epochs_fname c subject) w
     \<and> (\<exists>loaded. load_runs lib c (files w) subject (runs c) = Inr loaded \<and> loaded \<noteq> [])
     \<and> epochs_raises lib subject = None
     \<and> (plot c \<longrightarrow> plot_raises lib subject = None)
     \<and> save_file (save_overwrites lib) (epochs_fname c subject) w = Inr w'"
  by (auto simp: run_epochs_def split: sum.splits option.splits if_splits dest: save_file_Inr)

lemma make_epochs_batch_all_returned:
  assumes "make_epochs_batch lib c w = (Inr rs, w')"
  shows "length rs = length (subjects_list c)
         \<and> (\<forall>subject \<in> set (subjects_list c). \<exists>w0 w1. run_epochs lib c subject w0 = (Inr (), w1))"
proof -
  from make_epochs_batch_Inr [OF assms] obtain us where
    1: "set us = set (subjects_list c)" "length us = length (subjects_list c)" and
    2: "parallel_list (run_epochs lib c) us w = (Inr rs, w')"
    by blast
  show ?thesis
    using parallel_list_length [OF 2] parallel_list_all_returned [OF 2] 1 by auto
qed

lemma make_epochs_batch_raises:
  assumes "subject \<in> set (subjects_list c)" and "epochs_raises lib subject = Some e"
  shows "\<exists>e'. fst (make_epochs_batch lib c w) = Inl e'"
proof (cases "fst (make_epochs_batch lib c w)")
  case (Inl e')
  then show ?thesis by blast
next
  case (Inr rs)
  then have "make_epochs_batch lib c w = (Inr rs, snd (make_epochs_batch lib c w))"
    by (metis prod.collapse)
  from make_epochs_batch_all_returned [OF this] assms(1) obtain w0 w1 where
    "run_epochs lib c subject w0 = (Inr (), w1)"
    by blast
  from run_epochs_Inr [OF this] assms(2) show ?thesis by simp
qed

lemma touch_simps:
  "files (touch p w) p = Some (File (clock w))" "clock (touch p w) = Suc (clock w)"
  "q \<noteq> p \<Longrightarrow> files (touch p w) q = files w q"
  by (simp_all add: touch_def)

lemma isfile_touch: "isfile (files w) q \<Longrightarrow> isfile (files (touch p w)) q"
  by (simp add: touch_def isfile_def)

lemma isfile_touch_self: "isfile (files (touch p w)) p"
  by (simp add: touch_def isfile_def)

lemma read_file_touch:
  "read_file lib (files w) p = Inr x \<Longrightarrow> read_file lib (files (touch q w)) p = Inr x"
  by (auto simp: read_file_def touch_def split: option.splits node.splits)

lemma load_runs_touch:
  "load_runs lib c (files w) subject rs = Inr loaded
     \<Longrightarrow> load_runs lib c (files (touch q w)) subject rs = Inr loaded"
proof (induction rs arbitrary: loaded)
  case Nil
  then show ?case by simp
next
  case (Cons r rs)
  from Cons.prems obtain raw events rest where
    1: "read_file lib (files w) (raw_fname_in c subject r) = Inr raw" and
    2: "read_file lib (files w) (eve_fname c subject r) = Inr events" and
    3: "load_runs lib c (files w) subject rs = Inr rest" and
    4: "loaded = (raw, events) # rest"
    by (auto split: sum.splits)
  show ?case
    using read_file_touch [OF 1, of q] read_file_touch [OF 2, of q] Cons.IH [OF 3] 4
    by simp
qed

lemma same_entries_read_file:
  "same_entries fs1 fs2 \<Longrightarrow> read_file lib fs1 p = read_file lib fs2 p"
proof -
  assume "same_entries fs1 fs2"
  then have "map_option forget_mtime (fs1 p) = map_option forget_mtime (fs2 p)"
    by (simp add: same_entries_def)
  then show ?thesis
    by (cases "fs1 p"; cases "fs2 p")
       (auto simp: read_file_def forget_mtime_def split: node.splits)
qed

lemma same_entries_load_runs:
  assumes "same_entries fs1 fs2"
  shows "load_runs lib c fs1 subject rs = load_runs lib c fs2 subject rs"
proof -
  have eq: "\<And>p. read_file lib fs1 p = read_file lib fs2 p"
    using assms by (rule same_entries_read_file)
  show ?thesis
    by (induction rs) (simp_all add: eq cong: sum.case_cong)
qed

lemma same_entries_isdir: "same_entries fs1 fs2 \<Longrightarrow> isdir fs1 p = isdir fs2 p"
proof -
  assume "same_entries fs1 fs2"
  then have "map_option forget_mtime (fs1 p) = map_option forget_mtime (fs2 p)"
    by (simp add: same_entries_def)
  then show ?thesis
    by (cases "fs1 p"; cases "fs2 p")
       (auto simp: isdir_def forget_mtime_def split: node.splits)
qed

lemma same_entries_save_file:
  assumes "same_entries (files w1) (files w2)"
  shows "(case save_file ov p w1 of Inl e \<Rightarrow> Inl e | Inr w \<Rightarrow> Inr ())
       = (case save_file ov p w2 of Inl e \<Rightarrow> Inl e | Inr w \<Rightarrow> Inr ())"
proof -
  from assms have "map_option forget_mtime (files w1 p) = map_option forget_mtime (files w2 p)"
    by (simp add: same_entries_def)
  then show ?thesis
    using same_entries_isdir [OF assms, of "butlast p"]
    by (cases "files w1 p"; cases "files w2 p")
       (auto simp: save_file_def forget_mtime_def split: node.splits)
qed

lemma same_entries_run_epochs:
  assumes "same_entries (files w1) (files w2)"
  shows "fst (run_epochs lib c subject w1) = fst (run_epochs lib c subject w2)"
  using same_entries_save_file [OF assms, of "save_overwrites lib" "epochs_fname c subject"]
  by (auto simp: run_epochs_def same_entries_load_runs [OF assms] split: sum.splits option.splits)

lemma out_trans_neq_out_forward: "out_trans cfg subject session \<noteq> out_forward cfg subject session"
  by (simp add: out_trans_def out_forward_def forward_bids_path_def)

lemma write_artifact_Inr:
  "write_artifact ext loc w = Inr w' \<Longrightarrow>
     w' = w\<lparr> mtime_of := (mtime_of w)(loc \<mapsto> now w), now := Suc (now w) \<rparr>"
  by (auto simp: write_artifact_def split: option.splits)

lemma run_forward_Inr:
  assumes "run_forward ext g cfg subject session in_files w = (Inr out_files, w')"
  shows "out_files = [(''trans'', out_trans cfg subject session),
                      (''forward'', out_forward cfg subject session)]
         \<and> mtime_of w' (out_trans cfg subject session) = Some (now w)
         \<and> mtime_of w' (out_forward cfg subject session) = Some (Suc (now w))
         \<and> now w' = Suc (Suc (now w))"
proof -
  from assms obtain w1 where
    1: "write_artifact ext (out_trans cfg subject session) w = Inr w1" and
    2: "write_artifact ext (out_forward cfg subject session) w1 = Inr w'" and
    3: "out_files = [(''trans'', out_trans cfg subject session),
                      (''forward'', out_forward cfg subject session)]"
    by (auto simp: run_forward_def Let_def split: option.splits sum.splits)
  show ?thesis
    using write_artifact_Inr [OF 1] write_artifact_Inr [OF 2] 3 out_trans_neq_out_forward [of cfg subject session]
    by auto
qed

lemma parallel_list_log_pairs:
  "parallel_list (\<lambda>(subject, session) w. (Inr (subject, session), w)) us w = (Inr us, w)"
  by (induction us) auto

lemma forward_logs_returns:
  assumes "parallel fns = parallel_list"
    and "\<And>cfg s ses fw. \<exists>l fw'. run_func fns cfg s ses fw = (Inr l, fw')"
  shows "\<exists>logs fw'. forward_logs fns g fw = (Inr logs, fw')
           \<and> length logs = length (forward_units g)"
proof -
  have "\<And>u w. \<exists>r w'. (\<lambda>(subject, session). run_func fns (get_config g (Some subject) None) subject session) u w
          = (Inr r, w')"
    using assms(2) by (auto split: prod.splits)
  then obtain logs fw' where
    1: "parallel_list (\<lambda>(subject, session). run_func fns (get_config g (Some subject) None) subject session)
          (forward_units g) fw = (Inr logs, fw')"
    using parallel_list_returns by meson
  show ?thesis
    using assms(1) 1 parallel_list_length [OF 1] by (simp add: forward_logs_def)
qed

lemma forward_main_returns:
  assumes "config_run_source_estimation g" and "get_parallel_backend fns = None"
    and "parallel fns = parallel_list"
    and "\<And>cfg s ses fw. \<exists>l fw'. run_func fns cfg s ses fw = (Inr l, fw')"
  shows "\<exists>logs fw'. forward_logs fns g fw = (Inr logs, fw')
           \<and> length logs = length (forward_units g)
           \<and> forward_main fns g fw = save_logs fns logs fw'"
proof -
  from forward_logs_returns [OF assms(3) assms(4), of g fw] obtain logs fw' where
    1: "forward_logs fns g fw = (Inr logs, fw')" "length logs = length (forward_units g)"
    by blast
  show ?thesis
    using assms(1,2) 1 by (simp add: forward_main_def)
qed

lemma example_names:
  "raw_fname_in two_subjects ''SB01'' '''' = [''data'', ''MEG'', ''SB01'', ''SB01_Localizer_sss_raw.fif'']"
  "eve_fname two_subjects ''SB01'' '''' = [''data'', ''MEG'', ''SB01'', ''SB01_Localizer_sss_raw-eve.fif'']"
  "epochs_fname two_subjects ''SB01'' = [''data'', ''MEG'', ''SB01'', ''SB01_Localizer-epo.fif'']"
  "raw_fname_in two_subjects ''SB02'' '''' = [''data'', ''MEG'', ''SB02'', ''SB02_Localizer_sss_raw.fif'']"
  "eve_fname two_subjects ''SB02'' '''' = [''data'', ''MEG'', ''SB02'', ''SB02_Localizer_sss_raw-eve.fif'']"
  "epochs_fname two_subjects ''SB02'' = [''data'', ''MEG'', ''SB02'', ''SB02_Localizer-epo.fif'']"
  "runs two_subjects = ['''']" "subjects_list two_subjects = [''SB01'', ''SB02'']"
  "plot two_subjects = False" "epochs_N_JOBS two_subjects = 1"
  by (simp_all add: two_subjects_def raw_fname_in_def eve_fname_def epochs_fname_def default_config_def
      meg_dir_def base_fname_def splitext_root_def epochs_N_JOBS_def)

lemma eight_jobs_names:
  "raw_fname_in (two_subjects \<lparr> N_JOBS := 8 \<rparr>) s r = raw_fname_in two_subjects s r"
  "eve_fname (two_subjects \<lparr> N_JOBS := 8 \<rparr>) s r = eve_fname two_subjects s r"
  "epochs_fname (two_subjects \<lparr> N_JOBS := 8 \<rparr>) s = epochs_fname two_subjects s"
  "runs (two_subjects \<lparr> N_JOBS := 8 \<rparr>) = runs two_subjects"
  "subjects_list (two_subjects \<lparr> N_JOBS := 8 \<rparr>) = subjects_list two_subjects"
  "plot (two_subjects \<lparr> N_JOBS := 8 \<rparr>) = False" "epochs_N_JOBS (two_subjects \<lparr> N_JOBS := 8 \<rparr>) = 2"
  by (simp_all add: raw_fname_in_def eve_fname_def epochs_fname_def meg_dir_def base_fname_def
      epochs_N_JOBS_def two_subjects_def default_config_def)

section \<open>Claims about the batch\<close>

text \<open>
  Claim C1, as amended. The epoching script calls \<open>run_epochs\<close> with no failure boundary
  around it, whatever the size of the pool. The batch returns one result per listed
  subject only if the step body returned for every one of them; a subject whose data
  the library cannot process makes the whole batch raise; and an error that leaves the
  batch is the error of one subject's step body, passed on as it is, with no record
  made. With one job the error leaves the batch at once, the subjects after it not
  processed. In the forward script only the step body is put under \<^verbatim>\<open>failsafe_run\<close>,
  whose code is not among the sources: with a dispatcher that runs the units in order,
  \<open>main\<close> hands one log entry per unit to \<^verbatim>\<open>save_logs\<close> provided the wrapped step returns
  an entry for every call.
\<close>

theorem batch_has_no_failure_boundary:
  "(make_epochs_batch lib c w = (Inr rs, w') \<longrightarrow>
        length rs = length (subjects_list c)
        \<and> (\<forall>subject \<in> set (subjects_list c). \<exists>w0 w1. run_epochs lib c subject w0 = (Inr (), w1)))
   \<and> (failing \<in> set (subjects_list c) \<and> epochs_raises lib failing = Some e1
        \<longrightarrow> (\<exists>e'. fst (make_epochs_batch lib c w) = Inl e'))
   \<and> (fst (make_epochs_batch lib c w) = Inl e2
        \<longrightarrow> (\<exists>subject \<in> set (subjects_list c). \<exists>w0. fst (run_epochs lib c subject w0) = Inl e2))
   \<and> (epochs_N_JOBS c = 1 \<and> subjects_list c = before @ subject # rest
        \<and> parallel_list (run_epochs lib c) before w = (Inr rs0, w1)
        \<and> run_epochs lib c subject w1 = (Inl e, w2)
      \<longrightarrow> make_epochs_batch lib c w = (Inl e, w2))
   \<and> (config_run_source_estimation g \<and> get_parallel_backend fns = None
        \<and> parallel fns = parallel_list
        \<and> (\<forall>cfg s ses fw. \<exists>l fw'. run_func fns cfg s ses fw = (Inr l, fw'))
      \<longrightarrow> (\<exists>logs fw'. forward_logs fns g fw = (Inr logs, fw')
             \<and> length logs = length (forward_units g)
             \<and> forward_main fns g fw = save_logs fns logs fw'))"
proof -
  have a: "make_epochs_batch lib c w = (Inr rs, w') \<longrightarrow>
        length rs = length (subjects_list c)
        \<and> (\<forall>subject \<in> set (subjects_list c). \<exists>w0 w1. run_epochs lib c subject w0 = (Inr (), w1))"
    using make_epochs_batch_all_returned [of lib c w rs w'] by blast
  have b: "failing \<in> set (subjects_list c) \<and> epochs_raises lib failing = Some e1
        \<longrightarrow> (\<exists>e'. fst (make_epochs_batch lib c w) = Inl e')"
    using make_epochs_batch_raises [of failing c lib e1 w] by blast
  have c: "fst (make_epochs_batch lib c w) = Inl e2
        \<longrightarrow> (\<exists>subject \<in> set (subjects_list c). \<exists>w0. fst (run_epochs lib c subject w0) = Inl e2)"
    using make_epochs_batch_error_source [of lib c w e2] by blast
  have d: "epochs_N_JOBS c = 1 \<and> subjects_list c = before @ subject # rest
        \<and> parallel_list (run_epochs lib c) before w = (Inr rs0, w1)
        \<and> run_epochs lib c subject w1 = (Inl e, w2)
      \<longrightarrow> make_epochs_batch lib c w = (Inl e, w2)"
  proof (intro impI, elim conjE)
    assume j: "epochs_N_JOBS c = 1"
      and l: "subjects_list c = before @ subject # rest"
      and p: "parallel_list (run_epochs lib c) before w = (Inr rs0, w1)"
      and r: "run_epochs lib c subject w1 = (Inl e, w2)"
    show "make_epochs_batch lib c w = (Inl e, w2)"
      using parallel_list_first_error [OF p r, of rest] l j
      by (simp add: make_epochs_batch_def epochs_units_def)
  qed
  have f: "config_run_source_estimation g \<and> get_parallel_backend fns = None
        \<and> parallel fns = parallel_list
        \<and> (\<forall>cfg s ses fw. \<exists>l fw'. run_func fns cfg s ses fw = (Inr l, fw'))
      \<longrightarrow> (\<exists>logs fw'. forward_logs fns g fw = (Inr logs, fw')
             \<and> length logs = length (forward_units g)
             \<and> forward_main fns g fw = save_logs fns logs fw')"
    using forward_main_returns [of g fns fw] by blast
  from a b c d f show ?thesis by blast
qed

lemma example_forward_units:
  "forward_units example_pipeline
     = [(''01'', Some ''a''), (''01'', Some ''b''), (''02'', Some ''a''), (''02'', Some ''b'')]"
  "config_run_source_estimation example_pipeline"
  by (simp_all add: forward_units_def example_pipeline_def)

text \<open>
  Two subjects, the first without its input files: with one job the batch raises at the
  first and the second is not processed. With eight configured jobs, a pool of two that
  takes SB02 first and a library that fails on SB02, the batch raises the error of SB02
  and SB01, in flight, has been processed all the same. The forward \<open>main\<close> with a
  wrapper that logs its unit saves four entries for two subjects and two sessions.
\<close>

theorem batch_has_no_failure_boundary_witness:
  "epochs_N_JOBS two_subjects = 1
   \<and> subjects_list two_subjects = [] @ ''SB01'' # [''SB02'']
   \<and> parallel_list (run_epochs (quiet_mne True) two_subjects) [] \<lparr> files = sb02_only_fs, clock = 10 \<rparr>
       = (Inr [], \<lparr> files = sb02_only_fs, clock = 10 \<rparr>)
   \<and> run_epochs (quiet_mne True) two_subjects ''SB01'' \<lparr> files = sb02_only_fs, clock = 10 \<rparr>
       = (Inl FileNotFoundError, \<lparr> files = sb02_only_fs, clock = 10 \<rparr>)
   \<and> make_epochs_batch (quiet_mne True) two_subjects \<lparr> files = sb02_only_fs, clock = 10 \<rparr>
       = (Inl FileNotFoundError, \<lparr> files = sb02_only_fs, clock = 10 \<rparr>)
   \<and> fst (make_epochs_batch (quiet_mne True) two_subjects \<lparr> files = both_subjects_fs, clock = 10 \<rparr>)
       = Inr [(), ()]
   \<and> epochs_N_JOBS (two_subjects \<lparr> N_JOBS := 8 \<rparr>) = 2
   \<and> ''SB02'' \<in> set (subjects_list (two_subjects \<lparr> N_JOBS := 8 \<rparr>))
   \<and> epochs_raises sb02_fails_mne ''SB02'' = Some (LibraryError ''No matching events found'')
   \<and> (\<exists>e'. fst (make_epochs_batch sb02_fails_mne (two_subjects \<lparr> N_JOBS := 8 \<rparr>)
                  \<lparr> files = both_subjects_fs, clock = 10 \<rparr>) = Inl e')
   \<and> make_epochs_batch sb02_fails_mne (two_subjects \<lparr> N_JOBS := 8 \<rparr>)
        \<lparr> files = both_subjects_fs, clock = 10 \<rparr>
       = (Inl (LibraryError ''No matching events found''),
          \<lparr> files = both_subjects_fs(epochs_fname two_subjects ''SB01'' \<mapsto> File 10), clock = 11 \<rparr>)
   \<and> config_run_source_estimation example_pipeline
   \<and> forward_main logging_functions example_pipeline []
       = (Inr (), [(''01'', Some ''a''), (''01'', Some ''b''), (''02'', Some ''a''), (''02'', Some ''b'')])"
proof -
  let ?w = "\<lparr> files = sb02_only_fs, clock = 10 \<rparr>"
  let ?w2 = "\<lparr> files = both_subjects_fs, clock = 10 \<rparr>"
  let ?c8 = "two_subjects \<lparr> N_JOBS := 8 \<rparr>"
  have 0: "epochs_N_JOBS two_subjects = 1"
    by (simp add: example_names)
  have 1: "subjects_list two_subjects = [] @ ''SB01'' # [''SB02'']"
    by (simp add: example_names)
  have 2: "parallel_list (run_epochs (quiet_mne True) two_subjects) [] ?w = (Inr [], ?w)"
    by simp
  have 3: "run_epochs (quiet_mne True) two_subjects ''SB01'' ?w = (Inl FileNotFoundError, ?w)"
    by (simp add: run_epochs_def read_file_def example_names sb02_only_fs_def quiet_mne_def)
  have 4: "fst (make_epochs_batch (quiet_mne True) two_subjects ?w2) = Inr [(), ()]"
    by (simp add: make_epochs_batch_def epochs_units_def run_epochs_def read_file_def save_file_def
      isdir_def touch_def example_names both_subjects_fs_def quiet_mne_def)
  have 5: "make_epochs_batch (quiet_mne True) two_subjects ?w = (Inl FileNotFoundError, ?w)"
    by (rule batch_has_no_failure_boundary [THEN conjunct2, THEN conjunct2, THEN conjunct2,
          THEN conjunct1, THEN mp])
       (intro conjI, rule 0, rule 1, rule 2, rule 3)
  have 6: "epochs_N_JOBS ?c8 = 2" "''SB02'' \<in> set (subjects_list ?c8)"
    "epochs_raises sb02_fails_mne ''SB02'' = Some (LibraryError ''No matching events found'')"
    by (simp_all add: eight_jobs_names example_names sb02_fails_mne_def)
  have 7: "\<exists>e'. fst (make_epochs_batch sb02_fails_mne ?c8 ?w2) = Inl e'"
    by (rule batch_has_no_failure_boundary [THEN conjunct2, THEN conjunct1, THEN mp])
       (intro conjI, rule 6(2), rule 6(3))
  have 8: "make_epochs_batch sb02_fails_mne ?c8 ?w2
       = (Inl (LibraryError ''No matching events found''),
          \<lparr> files = both_subjects_fs(epochs_fname two_subjects ''SB01'' \<mapsto> File 10), clock = 11 \<rparr>)"
    by (simp add: make_epochs_batch_def epochs_units_def run_epochs_def read_file_def save_file_def
      isdir_def touch_def eight_jobs_names example_names both_subjects_fs_def sb02_fails_mne_def
      quiet_mne_def)
  have 9: "config_run_source_estimation example_pipeline"
    by (simp add: example_pipeline_def)
  have 10: "forward_main logging_functions example_pipeline []
       = (Inr (), [(''01'', Some ''a''), (''01'', Some ''b''), (''02'', Some ''a''), (''02'', Some ''b'')])"
    by (simp add: forward_main_def forward_logs_def logging_functions_def example_forward_units)
  from 0 1 2 3 4 5 6 7 8 9 10 show ?thesis by blast
qed

text \<open>
  Claim C1 as stated fails on the epoching script. Subject SB01 has no raw file, subject
  SB02 has all its inputs and would be processed alone; the batch over both raises
  FileNotFoundError, returns no record and leaves SB02 without its epochs file.
\<close>

theorem epochs_batch_aborts_counterexample:
  "fst (run_epochs (quiet_mne True) two_subjects ''SB01'' \<lparr> files = sb02_only_fs, clock = 10 \<rparr>)
     = Inl FileNotFoundError
   \<and> fst (run_epochs (quiet_mne True) two_subjects ''SB02'' \<lparr> files = sb02_only_fs, clock = 10 \<rparr>)
     = Inr ()
   \<and> make_epochs_batch (quiet_mne True) two_subjects \<lparr> files = sb02_only_fs, clock = 10 \<rparr>
     = (Inl FileNotFoundError, \<lparr> files = sb02_only_fs, clock = 10 \<rparr>)
   \<and> sb02_only_fs (epochs_fname two_subjects ''SB02'') = None"
  by (simp add: make_epochs_batch_def epochs_units_def run_epochs_def read_file_def save_file_def
      isdir_def example_names sb02_only_fs_def quiet_mne_def)

section \<open>No freshness decision in either step body\<close>

lemma sb01_names:
  "raw_fname_in default_config ''SB01'' '''' = [''data'', ''MEG'', ''SB01'', ''SB01_Localizer_sss_raw.fif'']"
  "eve_fname default_config ''SB01'' '''' = [''data'', ''MEG'', ''SB01'', ''SB01_Localizer_sss_raw-eve.fif'']"
  "epochs_fname default_config ''SB01'' = [''data'', ''MEG'', ''SB01'', ''SB01_Localizer-epo.fif'']"
  "runs default_config = ['''']" "plot default_config = False"
  by (simp_all add: raw_fname_in_def eve_fname_def epochs_fname_def default_config_def
      meg_dir_def base_fname_def splitext_root_def)

lemma example_inputs:
  "get_input_fnames_forward one_layer_helper g w (get_config example_pipeline (Some ''01'') None)
      ''01'' (Some ''a'')
   = (Inr example_in_files, w)"
  by (simp add: get_input_fnames_forward_def one_layer_helper_def example_in_files_def
      forward_bids_path_def get_config_def example_pipeline_def bids_update_def)

lemma example_run_forward:
  "run_forward quiet_externals example_pipeline (get_config example_pipeline (Some ''01'') None) ''01'' (Some ''a'')
     example_in_files
     \<lparr> mtime_of = m, now = t \<rparr>
   = (Inr [(''trans'', out_trans (get_config example_pipeline (Some ''01'') None) ''01'' (Some ''a'')),
           (''forward'', out_forward (get_config example_pipeline (Some ''01'') None) ''01'' (Some ''a''))],
      \<lparr> mtime_of = m(out_trans (get_config example_pipeline (Some ''01'') None) ''01'' (Some ''a'') \<mapsto> t,
                      out_forward (get_config example_pipeline (Some ''01'') None) ''01'' (Some ''a'') \<mapsto> Suc t),
        now = Suc (Suc t) \<rparr>)"
proof -
  have 1: "cfg_use_template_mri (get_config example_pipeline (Some ''01'') None) = None"
    "cfg_runs (get_config example_pipeline (Some ''01'') None) = [Some ''01'']"
    by (simp_all add: get_config_def example_pipeline_def)
  show ?thesis
    by (simp add: example_in_files_def run_forward_def quiet_externals_def forward_trans_def
        prepare_trans_def prepare_trans_request_def write_artifact_def 1)
qed

lemma run_epochs_again:
  assumes first: "run_epochs lib c subject w = (Inr u, w1)"
  shows "files w1 (epochs_fname c subject) = Some (File (clock w))
       \<and> (save_overwrites lib \<longrightarrow>
            run_epochs lib c subject w1 = (Inr (), touch (epochs_fname c subject) w1)
            \<and> files (touch (epochs_fname c subject) w1) (epochs_fname c subject) = Some (File (Suc (clock w))))
       \<and> (\<not> save_overwrites lib \<longrightarrow> run_epochs lib c subject w1 = (Inl FileExistsError, w1))"
proof -
  from run_epochs_Inr [OF first] obtain loaded where
    w1: "w1 = touch (epochs_fname c subject) w" and
    l: "load_runs lib c (files w) subject (runs c) = Inr loaded" and ne: "loaded \<noteq> []" and
    r: "epochs_raises lib subject = None" and
    pl: "plot c \<longrightarrow> plot_raises lib subject = None"
    by blast
  have l1: "load_runs lib c (files w1) subject (runs c) = Inr loaded"
    unfolding w1 using l by (rule load_runs_touch)
  have f: "files w1 (epochs_fname c subject) = Some (File (clock w))" "clock w1 = Suc (clock w)"
    by (simp_all add: w1 touch_simps)
  show ?thesis
    using f pl by (simp add: run_epochs_def l1 ne r save_file_def touch_simps)
qed

text \<open>
  Claim C2, as amended. No function of the sources compares modification times.
  \<open>run_epochs\<close> makes no freshness decision: whenever it returns it has written its
  output at the current time, whatever was there before, and whether it returns or
  raises does not depend on any modification time. \<open>run_forward\<close> likewise writes both
  of its outputs whenever it returns. Skipping a step whose outputs are up to date is
  left to the \<^verbatim>\<open>failsafe_run\<close> wrapper of the forward step, whose code is not among the
  sources; the epoching step is always re-executed.
\<close>

theorem step_bodies_make_no_freshness_decision:
  "(run_epochs lib c subject w = (Inr u, w')
      \<longrightarrow> files w' (epochs_fname c subject) = Some (File (clock w)))
   \<and> (same_entries (files w1) (files w2)
      \<longrightarrow> fst (run_epochs lib c subject w1) = fst (run_epochs lib c subject w2))
   \<and> (run_forward ext g cfg fsubject session in_files fw = (Inr out_files, fw')
      \<longrightarrow> out_files = [(''trans'', out_trans cfg fsubject session),
                       (''forward'', out_forward cfg fsubject session)]
          \<and> mtime_of fw' (out_trans cfg fsubject session) = Some (now fw)
          \<and> mtime_of fw' (out_forward cfg fsubject session) = Some (Suc (now fw)))"
proof -
  have a: "run_epochs lib c subject w = (Inr u, w')
      \<longrightarrow> files w' (epochs_fname c subject) = Some (File (clock w))"
    by (auto dest!: run_epochs_Inr simp: touch_simps)
  have b: "same_entries (files w1) (files w2)
      \<longrightarrow> fst (run_epochs lib c subject w1) = fst (run_epochs lib c subject w2)"
    by (auto intro: same_entries_run_epochs)
  have c: "run_forward ext g cfg fsubject session in_files fw = (Inr out_files, fw')
      \<longrightarrow> out_files = [(''trans'', out_trans cfg fsubject session),
                       (''forward'', out_forward cfg fsubject session)]
          \<and> mtime_of fw' (out_trans cfg fsubject session) = Some (now fw)
          \<and> mtime_of fw' (out_forward cfg fsubject session) = Some (Suc (now fw))"
    using run_forward_Inr [of ext g cfg fsubject session in_files fw out_files fw'] by blast
  from a b c show ?thesis by blast
qed

text \<open>
  Subject SB01 with an epochs file newer than its inputs: the step runs and rewrites it;
  the same run on other modification times has the same outcome; the forward step
  body on a study without template MRI writes its two outputs.
\<close>

theorem step_bodies_make_no_freshness_decision_witness:
  "run_epochs (quiet_mne True) default_config ''SB01'' \<lparr> files = sb01_fs (Some (File 5)), clock = 10 \<rparr>
     = (Inr (), touch (epochs_fname default_config ''SB01'') \<lparr> files = sb01_fs (Some (File 5)), clock = 10 \<rparr>)
   \<and> files (touch (epochs_fname default_config ''SB01'') \<lparr> files = sb01_fs (Some (File 5)), clock = 10 \<rparr>)
        (epochs_fname default_config ''SB01'')
      = Some (File 10)
   \<and> same_entries (files \<lparr> files = sb01_fs (Some (File 5)), clock = 10 \<rparr>)
                   (files \<lparr> files = sb01_fs (Some (File 0)), clock = 3 \<rparr>)
   \<and> fst (run_epochs (quiet_mne True) default_config ''SB01'' \<lparr> files = sb01_fs (Some (File 5)), clock = 10 \<rparr>)
     = fst (run_epochs (quiet_mne True) default_config ''SB01'' \<lparr> files = sb01_fs (Some (File 0)), clock = 3 \<rparr>)
   \<and> fst (run_forward quiet_externals example_pipeline (get_config example_pipeline (Some ''01'') None) ''01'' (Some ''a'') example_in_files
             \<lparr> mtime_of = Map.empty, now = 7 \<rparr>)
      = Inr [(''trans'', out_trans (get_config example_pipeline (Some ''01'') None) ''01'' (Some ''a'')), (''forward'', out_forward (get_config example_pipeline (Some ''01'') None) ''01'' (Some ''a''))]
   \<and> mtime_of (snd (run_forward quiet_externals example_pipeline (get_config example_pipeline (Some ''01'') None) ''01'' (Some ''a'') example_in_files
                       \<lparr> mtime_of = Map.empty, now = 7 \<rparr>))
        (out_forward (get_config example_pipeline (Some ''01'') None) ''01'' (Some ''a'')) = Some 8"
proof -
  let ?w = "\<lparr> files = sb01_fs (Some (File 5)), clock = 10 \<rparr>"
  let ?fw = "\<lparr> mtime_of = Map.empty, now = 7 \<rparr>"
  let ?r = "run_forward quiet_externals example_pipeline (get_config example_pipeline (Some ''01'') None) ''01'' (Some ''a'') example_in_files ?fw"
  have 1: "run_epochs (quiet_mne True) default_config ''SB01'' ?w
     = (Inr (), touch (epochs_fname default_config ''SB01'') ?w)"
    by (simp add: run_epochs_def read_file_def save_file_def isdir_def sb01_names sb01_fs_def
      quiet_mne_def)
  have 2: "same_entries (files ?w) (files \<lparr> files = sb01_fs (Some (File 0)), clock = 3 \<rparr>)"
    by (simp add: same_entries_def sb01_fs_def forget_mtime_def)
  have 5: "fst ?r = Inr [(''trans'', out_trans (get_config example_pipeline (Some ''01'') None) ''01'' (Some ''a'')),
                         (''forward'', out_forward (get_config example_pipeline (Some ''01'') None) ''01'' (Some ''a''))]"
    by (simp add: example_run_forward)
  then have 6: "?r = (Inr [(''trans'', out_trans (get_config example_pipeline (Some ''01'') None) ''01'' (Some ''a'')),
                           (''forward'', out_forward (get_config example_pipeline (Some ''01'') None) ''01'' (Some ''a''))], snd ?r)"
    by (metis prod.collapse)
  note t = step_bodies_make_no_freshness_decision
    [where lib = "quiet_mne True" and c = default_config and subject = "''SB01''" and w = ?w
       and ?w1.0 = ?w and ?w2.0 = "\<lparr> files = sb01_fs (Some (File 0)), clock = 3 \<rparr>"
       and u = "()" and w' = "touch (epochs_fname default_config ''SB01'') ?w"
       and ext = quiet_externals and g = example_pipeline and cfg = "(get_config example_pipeline (Some ''01'') None)"
       and fsubject = "''01''" and session = "Some ''a''" and in_files = "example_in_files" and fw = ?fw
       and fw' = "snd ?r"
       and out_files = "[(''trans'', out_trans (get_config example_pipeline (Some ''01'') None) ''01'' (Some ''a'')),
                         (''forward'', out_forward (get_config example_pipeline (Some ''01'') None) ''01'' (Some ''a''))]"]
  have 3: "files (touch (epochs_fname default_config ''SB01'') ?w) (epochs_fname default_config ''SB01'')
      = Some (File 10)"
    using t 1 by simp
  have 4: "fst (run_epochs (quiet_mne True) default_config ''SB01'' ?w)
     = fst (run_epochs (quiet_mne True) default_config ''SB01'' \<lparr> files = sb01_fs (Some (File 0)), clock = 3 \<rparr>)"
    using t 2 by blast
  have 7: "mtime_of (snd ?r) (out_forward (get_config example_pipeline (Some ''01'') None) ''01'' (Some ''a'')) = Some 8"
    using t 6 by simp
  from 1 2 3 4 5 7 show ?thesis by blast
qed

text \<open>
  Claim C2 as stated fails on the epoching step. The raw file and the events file of
  SB01 were modified at times 1 and 2 and the epochs file at time 5, so every output
  exists and is not older than any input; the step is executed all the same and
  rewrites the epochs file at time 10 (or raises, with a library that does not
  overwrite).
\<close>

theorem epochs_fresh_output_rewritten_counterexample:
  "sb01_fs (Some (File 5)) (raw_fname_in default_config ''SB01'' '''') = Some (File 1)
   \<and> sb01_fs (Some (File 5)) (eve_fname default_config ''SB01'' '''') = Some (File 2)
   \<and> sb01_fs (Some (File 5)) (epochs_fname default_config ''SB01'') = Some (File 5)
   \<and> fst (run_epochs (quiet_mne True) default_config ''SB01'' \<lparr> files = sb01_fs (Some (File 5)), clock = 10 \<rparr>)
       = Inr ()
   \<and> files (snd (run_epochs (quiet_mne True) default_config ''SB01''
                    \<lparr> files = sb01_fs (Some (File 5)), clock = 10 \<rparr>))
       (epochs_fname default_config ''SB01'') = Some (File 10)
   \<and> fst (run_epochs (quiet_mne False) default_config ''SB01'' \<lparr> files = sb01_fs (Some (File 5)), clock = 10 \<rparr>)
       = Inl FileExistsError"
  by (simp add: run_epochs_def read_file_def save_file_def isdir_def touch_def sb01_names sb01_fs_def
      quiet_mne_def)

text \<open>
  Claim C3, as amended. Neither step body skips on a second run. After a run of
  \<open>run_epochs\<close> that returned, a second run with nothing changed in between recomputes:
  with a library that overwrites it returns again and has rewritten the epochs file at
  a later time, and with one that does not it raises FileExistsError. Two runs of
  \<open>run_forward\<close> in succession that both return have each written both outputs. A
  skipped outcome can only come from the \<^verbatim>\<open>failsafe_run\<close> wrapper, whose code is not
  among the sources.
\<close>

theorem second_run_recomputes:
  "(run_epochs lib c subject w = (Inr u, w1) \<longrightarrow>
      files w1 (epochs_fname c subject) = Some (File (clock w))
      \<and> (save_overwrites lib \<longrightarrow>
            (\<exists>w2. run_epochs lib c subject w1 = (Inr (), w2)
                 \<and> files w2 (epochs_fname c subject) = Some (File (Suc (clock w)))))
      \<and> (\<not> save_overwrites lib \<longrightarrow> run_epochs lib c subject w1 = (Inl FileExistsError, w1)))
   \<and> (run_forward ext g cfg fsubject session in_files fw = (Inr out1, fw1)
        \<and> run_forward ext g cfg fsubject session in_files fw1 = (Inr out2, fw2)
      \<longrightarrow> mtime_of fw1 (out_trans cfg fsubject session) = Some (now fw)
          \<and> mtime_of fw1 (out_forward cfg fsubject session) = Some (Suc (now fw))
          \<and> mtime_of fw2 (out_trans cfg fsubject session) = Some (Suc (Suc (now fw)))
          \<and> mtime_of fw2 (out_forward cfg fsubject session) = Some (Suc (Suc (Suc (now fw)))))"
proof -
  have a: "run_epochs lib c subject w = (Inr u, w1) \<longrightarrow>
      files w1 (epochs_fname c subject) = Some (File (clock w))
      \<and> (save_overwrites lib \<longrightarrow>
            (\<exists>w2. run_epochs lib c subject w1 = (Inr (), w2)
                 \<and> files w2 (epochs_fname c subject) = Some (File (Suc (clock w)))))
      \<and> (\<not> save_overwrites lib \<longrightarrow> run_epochs lib c subject w1 = (Inl FileExistsError, w1))"
    using run_epochs_again [of lib c subject w u w1] by blast
  have b: "run_forward ext g cfg fsubject session in_files fw = (Inr out1, fw1)
        \<and> run_forward ext g cfg fsubject session in_files fw1 = (Inr out2, fw2)
      \<longrightarrow> mtime_of fw1 (out_trans cfg fsubject session) = Some (now fw)
          \<and> mtime_of fw1 (out_forward cfg fsubject session) = Some (Suc (now fw))
          \<and> mtime_of fw2 (out_trans cfg fsubject session) = Some (Suc (Suc (now fw)))
          \<and> mtime_of fw2 (out_forward cfg fsubject session) = Some (Suc (Suc (Suc (now fw))))"
    using run_forward_Inr [of ext g cfg fsubject session in_files fw out1 fw1]
      run_forward_Inr [of ext g cfg fsubject session in_files fw1 out2 fw2]
    by auto
  from a b show ?thesis by blast
qed

text \<open>
  Subject SB01 run twice from a state without epochs file, under both behaviours of
  the library, and the forward step body run twice on an empty derivatives store.
\<close>

theorem second_run_recomputes_witness:
  "run_epochs (quiet_mne True) default_config ''SB01'' \<lparr> files = sb01_fs None, clock = 10 \<rparr>
     = (Inr (), \<lparr> files = sb01_fs (Some (File 10)), clock = 11 \<rparr>)
   \<and> save_overwrites (quiet_mne True)
   \<and> (\<exists>w2. run_epochs (quiet_mne True) default_config ''SB01'' \<lparr> files = sb01_fs (Some (File 10)), clock = 11 \<rparr>
              = (Inr (), w2)
          \<and> files w2 (epochs_fname default_config ''SB01'') = Some (File 11))
   \<and> run_epochs (quiet_mne False) default_config ''SB01'' \<lparr> files = sb01_fs None, clock = 10 \<rparr>
     = (Inr (), \<lparr> files = sb01_fs (Some (File 10)), clock = 11 \<rparr>)
   \<and> \<not> save_overwrites (quiet_mne False)
   \<and> run_epochs (quiet_mne False) default_config ''SB01'' \<lparr> files = sb01_fs (Some (File 10)), clock = 11 \<rparr>
     = (Inl FileExistsError, \<lparr> files = sb01_fs (Some (File 10)), clock = 11 \<rparr>)
   \<and> fst (run_forward quiet_externals example_pipeline (get_config example_pipeline (Some ''01'') None) ''01'' (Some ''a'') example_in_files empty_forward_world)
      = Inr [(''trans'', out_trans (get_config example_pipeline (Some ''01'') None) ''01'' (Some ''a'')), (''forward'', out_forward (get_config example_pipeline (Some ''01'') None) ''01'' (Some ''a''))]
   \<and> fst (run_forward quiet_externals example_pipeline (get_config example_pipeline (Some ''01'') None) ''01'' (Some ''a'') example_in_files
        (snd (run_forward quiet_externals example_pipeline (get_config example_pipeline (Some ''01'') None) ''01'' (Some ''a'') example_in_files empty_forward_world)))
      = Inr [(''trans'', out_trans (get_config example_pipeline (Some ''01'') None) ''01'' (Some ''a'')), (''forward'', out_forward (get_config example_pipeline (Some ''01'') None) ''01'' (Some ''a''))]
   \<and> mtime_of (snd (run_forward quiet_externals example_pipeline (get_config example_pipeline (Some ''01'') None) ''01'' (Some ''a'') example_in_files empty_forward_world))
        (out_forward (get_config example_pipeline (Some ''01'') None) ''01'' (Some ''a'')) = Some 1
   \<and> mtime_of (snd (run_forward quiet_externals example_pipeline (get_config example_pipeline (Some ''01'') None) ''01'' (Some ''a'') example_in_files
        (snd (run_forward quiet_externals example_pipeline (get_config example_pipeline (Some ''01'') None) ''01'' (Some ''a'') example_in_files empty_forward_world))))
        (out_forward (get_config example_pipeline (Some ''01'') None) ''01'' (Some ''a'')) = Some 3"
proof -
  let ?outs = "[(''trans'', out_trans (get_config example_pipeline (Some ''01'') None) ''01'' (Some ''a'')), (''forward'', out_forward (get_config example_pipeline (Some ''01'') None) ''01'' (Some ''a''))]"
  let ?r1 = "run_forward quiet_externals example_pipeline (get_config example_pipeline (Some ''01'') None) ''01'' (Some ''a'') example_in_files empty_forward_world"
  let ?r2 = "run_forward quiet_externals example_pipeline (get_config example_pipeline (Some ''01'') None) ''01'' (Some ''a'') example_in_files (snd ?r1)"
  have 1: "run_epochs (quiet_mne ov) default_config ''SB01'' \<lparr> files = sb01_fs None, clock = 10 \<rparr>
     = (Inr (), \<lparr> files = sb01_fs (Some (File 10)), clock = 11 \<rparr>)" for ov
    by (simp add: run_epochs_def read_file_def save_file_def isdir_def touch_def sb01_names sb01_fs_def
      quiet_mne_def)
  have 2: "save_overwrites (quiet_mne True)" "\<not> save_overwrites (quiet_mne False)"
    by (simp_all add: quiet_mne_def)
  note t = second_run_recomputes [THEN conjunct1, THEN mp, OF 1]
  have 3: "\<exists>w2. run_epochs (quiet_mne True) default_config ''SB01'' \<lparr> files = sb01_fs (Some (File 10)), clock = 11 \<rparr>
              = (Inr (), w2)
          \<and> files w2 (epochs_fname default_config ''SB01'') = Some (File 11)"
    using t [of True] 2 by simp
  have 4: "run_epochs (quiet_mne False) default_config ''SB01'' \<lparr> files = sb01_fs (Some (File 10)), clock = 11 \<rparr>
     = (Inl FileExistsError, \<lparr> files = sb01_fs (Some (File 10)), clock = 11 \<rparr>)"
    using t [of False] 2 by simp
  have 5: "?r1 = (Inr ?outs, snd ?r1)"
    by (simp add: empty_forward_world_def example_run_forward)
  have "fst ?r2 = Inr ?outs"
    by (simp add: empty_forward_world_def example_run_forward)
  then have 6: "?r2 = (Inr ?outs, snd ?r2)"
    by (metis prod.collapse)
  have 7: "mtime_of (snd ?r1) (out_forward (get_config example_pipeline (Some ''01'') None) ''01'' (Some ''a'')) = Some 1
         \<and> mtime_of (snd ?r2) (out_forward (get_config example_pipeline (Some ''01'') None) ''01'' (Some ''a'')) = Some 3"
    using second_run_recomputes [THEN conjunct2, THEN mp, OF conjI, OF 5 6]
    by (simp add: empty_forward_world_def)
  have 8: "fst ?r1 = Inr ?outs" "fst ?r2 = Inr ?outs"
    using 5 6 by (metis fst_conv)+
  from 1 2 3 4 7 8 show ?thesis by blast
qed

text \<open>
  Claim C3 as stated fails on the epoching step: the first run succeeds and writes
  the epochs file at time 10; the second run, with nothing changed, succeeds again and
  writes it at time 11.
\<close>

theorem epochs_second_run_rewrites_counterexample:
  "run_epochs (quiet_mne True) default_config ''SB01'' \<lparr> files = sb01_fs None, clock = 10 \<rparr>
     = (Inr (), \<lparr> files = sb01_fs (Some (File 10)), clock = 11 \<rparr>)
   \<and> run_epochs (quiet_mne True) default_config ''SB01'' \<lparr> files = sb01_fs (Some (File 10)), clock = 11 \<rparr>
     = (Inr (), \<lparr> files = sb01_fs (Some (File 11)), clock = 12 \<rparr>)
   \<and> sb01_fs (Some (File 10)) (epochs_fname default_config ''SB01'') = Some (File 10)
   \<and> sb01_fs (Some (File 11)) (epochs_fname default_config ''SB01'') = Some (File 11)
   \<and> run_epochs (quiet_mne False) default_config ''SB01'' \<lparr> files = sb01_fs (Some (File 10)), clock = 11 \<rparr>
     = (Inl FileExistsError, \<lparr> files = sb01_fs (Some (File 10)), clock = 11 \<rparr>)"
  by (simp add: run_epochs_def read_file_def save_file_def isdir_def touch_def sb01_names sb01_fs_def
      quiet_mne_def)

section \<open>The units of the two steps\<close>

lemma run_epochs_writes_output:
  "run_epochs lib c subject w = (Inr u, w1) \<Longrightarrow> isfile (files w1) (epochs_fname c subject)"
  by (auto dest!: run_epochs_Inr simp: isfile_touch_self)

lemma run_epochs_keeps_files:
  "isfile (files w) p \<Longrightarrow> run_epochs lib c subject w = (Inr u, w1) \<Longrightarrow> isfile (files w1) p"
  by (auto dest!: run_epochs_Inr simp: isfile_touch)

lemma make_epochs_batch_outputs:
  assumes "make_epochs_batch lib c w = (Inr rs, w')"
  shows "\<forall>subject \<in> set (subjects_list c). isfile (files w') (epochs_fname c subject)"
proof -
  from make_epochs_batch_Inr [OF assms] obtain us where
    1: "set us = set (subjects_list c)" and
    2: "parallel_list (run_epochs lib c) us w = (Inr rs, w')"
    by blast
  from parallel_list_establishes
    [where Q = "\<lambda>subject w. isfile (files w) (epochs_fname c subject)", OF 2]
  have "\<forall>subject \<in> set us. isfile (files w') (epochs_fname c subject)"
    using run_epochs_writes_output run_epochs_keeps_files by blast
  then show ?thesis unfolding 1 .
qed

lemma product_concat:
  "List.product xs ys = concat (map (\<lambda>x. map (\<lambda>y. (x, y)) ys) xs)"
  by (induction xs) simp_all

lemma forward_logs_log:
  "forward_logs logging_functions g logged = (Inr (forward_units g), logged)"
  by (simp add: forward_logs_def logging_functions_def parallel_list_log_pairs)

lemma forward_main_log:
  assumes "config_run_source_estimation g"
  shows "forward_main logging_functions g logged = (Inr (), forward_units g)"
proof -
  have "get_parallel_backend logging_functions = None"
    "\<And>logs w. save_logs logging_functions logs w = (Inr (), logs)"
    by (simp_all add: logging_functions_def)
  then show ?thesis
    using assms by (simp add: forward_main_def forward_logs_log)
qed

lemma excluded_names:
  "raw_fname_in (two_subjects \<lparr> exclude_subjects := ex \<rparr>) s r = raw_fname_in two_subjects s r"
  "eve_fname (two_subjects \<lparr> exclude_subjects := ex \<rparr>) s r = eve_fname two_subjects s r"
  "epochs_fname (two_subjects \<lparr> exclude_subjects := ex \<rparr>) s = epochs_fname two_subjects s"
  "runs (two_subjects \<lparr> exclude_subjects := ex \<rparr>) = runs two_subjects"
  "subjects_list (two_subjects \<lparr> exclude_subjects := ex \<rparr>) = subjects_list two_subjects"
  "plot (two_subjects \<lparr> exclude_subjects := ex \<rparr>) = False"
  "epochs_N_JOBS (two_subjects \<lparr> exclude_subjects := ex \<rparr>) = 1"
  by (simp_all add: raw_fname_in_def eve_fname_def epochs_fname_def meg_dir_def base_fname_def
      epochs_N_JOBS_def two_subjects_def default_config_def)

text \<open>
  Claim C4, as amended. The epoching step runs over \<open>subjects_list\<close> as it is, in list
  order, and never reads \<open>exclude_subjects\<close>: after a batch that returned, every listed
  subject has its epochs file, excluded or not. The forward step runs over the cross
  product of the lists that \<^verbatim>\<open>config.get_subjects()\<close> and \<^verbatim>\<open>config.get_sessions()\<close> return,
  subject by subject and within a subject session by session; whether those lists leave
  out the excluded subjects is decided in the \<^verbatim>\<open>config\<close> module, which is not among the
  sources. With functions that run the units in order and log each unit
  (\<open>logging_functions\<close>), the log that \<open>main\<close> saves is that list of units.
\<close>

theorem units_of_both_steps:
  "epochs_units (c\<lparr> exclude_subjects := excluded \<rparr>) = subjects_list c
   \<and> (make_epochs_batch lib c w = (Inr rs, w')
        \<longrightarrow> (\<forall>subject \<in> set (subjects_list c). isfile (files w') (epochs_fname c subject)))
   \<and> forward_units g
       = concat (map (\<lambda>subject. map (\<lambda>session. (subject, session)) (config_get_sessions g))
                     (config_get_subjects g))
   \<and> set (forward_units g) = set (config_get_subjects g) \<times> set (config_get_sessions g)
   \<and> forward_logs logging_functions g logged = (Inr (forward_units g), logged)
   \<and> (config_run_source_estimation g
        \<longrightarrow> forward_main logging_functions g logged = (Inr (), forward_units g))"
proof -
  have a: "epochs_units (c\<lparr> exclude_subjects := excluded \<rparr>) = subjects_list c"
    by (simp add: epochs_units_def)
  have b: "make_epochs_batch lib c w = (Inr rs, w')
        \<longrightarrow> (\<forall>subject \<in> set (subjects_list c). isfile (files w') (epochs_fname c subject))"
    using make_epochs_batch_outputs [of lib c w rs w'] by blast
  have d: "forward_units g
       = concat (map (\<lambda>subject. map (\<lambda>session. (subject, session)) (config_get_sessions g))
                     (config_get_subjects g))"
    by (simp add: forward_units_def product_concat)
  have e: "set (forward_units g) = set (config_get_subjects g) \<times> set (config_get_sessions g)"
    by (simp add: forward_units_def)
  have f: "forward_logs logging_functions g logged = (Inr (forward_units g), logged)"
    by (rule forward_logs_log)
  have h: "config_run_source_estimation g
        \<longrightarrow> forward_main logging_functions g logged = (Inr (), forward_units g)"
    using forward_main_log [of g logged] by blast
  from a b d e f h show ?thesis by blast
qed

text \<open>
  Two subjects with all their inputs, the second one excluded, and a forward study
  with two subjects and two sessions.
\<close>

theorem units_of_both_steps_witness:
  "epochs_units (two_subjects \<lparr> exclude_subjects := [''SB02''] \<rparr>) = [''SB01'', ''SB02'']
   \<and> fst (make_epochs_batch (quiet_mne True) two_subjects \<lparr> files = both_subjects_fs, clock = 10 \<rparr>)
       = Inr [(), ()]
   \<and> isfile (files (snd (make_epochs_batch (quiet_mne True) two_subjects
                            \<lparr> files = both_subjects_fs, clock = 10 \<rparr>)))
            (epochs_fname two_subjects ''SB02'')
   \<and> forward_units example_pipeline
       = [(''01'', Some ''a''), (''01'', Some ''b''), (''02'', Some ''a''), (''02'', Some ''b'')]
   \<and> config_run_source_estimation example_pipeline
   \<and> forward_main logging_functions example_pipeline []
       = (Inr (), [(''01'', Some ''a''), (''01'', Some ''b''), (''02'', Some ''a''), (''02'', Some ''b'')])"
proof -
  let ?w = "\<lparr> files = both_subjects_fs, clock = 10 \<rparr>"
  note t = units_of_both_steps [where c = two_subjects and excluded = "[''SB02'']"
      and lib = "quiet_mne True" and w = ?w and g = example_pipeline and logged = "[]"]
  have 1: "epochs_units (two_subjects \<lparr> exclude_subjects := [''SB02''] \<rparr>) = [''SB01'', ''SB02'']"
    using t by (simp add: example_names)
  have 2: "fst (make_epochs_batch (quiet_mne True) two_subjects ?w) = Inr [(), ()]"
    by (simp add: make_epochs_batch_def epochs_units_def run_epochs_def read_file_def save_file_def
      isdir_def touch_def example_names both_subjects_fs_def quiet_mne_def)
  then have "make_epochs_batch (quiet_mne True) two_subjects ?w
      = (Inr [(), ()], snd (make_epochs_batch (quiet_mne True) two_subjects ?w))"
    by (metis prod.collapse)
  with t have "\<forall>subject \<in> set (subjects_list two_subjects).
      isfile (files (snd (make_epochs_batch (quiet_mne True) two_subjects ?w))) (epochs_fname two_subjects subject)"
    by blast
  then have 3: "isfile (files (snd (make_epochs_batch (quiet_mne True) two_subjects ?w)))
            (epochs_fname two_subjects ''SB02'')"
    by (simp add: example_names(8))
  have 4: "forward_units example_pipeline
       = [(''01'', Some ''a''), (''01'', Some ''b''), (''02'', Some ''a''), (''02'', Some ''b'')]"
    by (simp add: forward_units_def example_pipeline_def)
  have 5: "config_run_source_estimation example_pipeline"
    by (simp add: example_pipeline_def)
  have 6: "forward_main logging_functions example_pipeline []
       = (Inr (), [(''01'', Some ''a''), (''01'', Some ''b''), (''02'', Some ''a''), (''02'', Some ''b'')])"
    using t 5 by (simp add: 4)
  from 1 2 3 4 5 6 show ?thesis by blast
qed

text \<open>
  Claim C4 as stated fails on the epoching step: SB02 is in \<open>exclude_subjects\<close> and on
  the subject list, it is one of the units, and the batch writes its epochs file.
\<close>

theorem epochs_excluded_subject_processed_counterexample:
  "''SB02'' \<in> set (exclude_subjects (two_subjects \<lparr> exclude_subjects := [''SB02''] \<rparr>))
   \<and> epochs_units (two_subjects \<lparr> exclude_subjects := [''SB02''] \<rparr>) = [''SB01'', ''SB02'']
   \<and> both_subjects_fs (epochs_fname two_subjects ''SB02'') = None
   \<and> fst (make_epochs_batch (quiet_mne True) (two_subjects \<lparr> exclude_subjects := [''SB02''] \<rparr>)
            \<lparr> files = both_subjects_fs, clock = 10 \<rparr>) = Inr [(), ()]
   \<and> files (snd (make_epochs_batch (quiet_mne True) (two_subjects \<lparr> exclude_subjects := [''SB02''] \<rparr>)
            \<lparr> files = both_subjects_fs, clock = 10 \<rparr>)) (epochs_fname two_subjects ''SB02'')
       = Some (File 11)"
  by (simp add: make_epochs_batch_def epochs_units_def run_epochs_def read_file_def save_file_def
      isdir_def touch_def excluded_names example_names both_subjects_fs_def quiet_mne_def)

section \<open>The forward step: transform, inputs and snapshot\<close>

lemma template_cfg_fields:
  "cfg_use_template_mri (template_cfg s a) = Some s" "cfg_fs_subject (template_cfg s a) = s"
  "cfg_adjust_coreg (template_cfg s a) = a"
  "cfg_fs_subjects_dir (template_cfg s a) = [''derivatives'', ''freesurfer'', ''subjects'']"
  by (simp_all add: template_cfg_def get_config_def example_pipeline_def)

lemma same_snapshot:
  "get_config example_pipeline s ses = get_config t1_generator_pipeline s ses"
  by (simp add: get_config_def t1_generator_pipeline_def)

lemma forward_trans_module_dependence:
  "config_mri_t1_path_generator g1 = config_mri_t1_path_generator g2
     \<Longrightarrow> config_mri_landmarks_kind g1 = config_mri_landmarks_kind g2
     \<Longrightarrow> forward_trans ext g1 w cfg info bids_path = forward_trans ext g2 w cfg info bids_path"
  by (simp add: forward_trans_def prepare_trans_def prepare_trans_request_def
      t1_bids_path_of_def landmarks_kind_of_def)

lemma run_forward_module_dependence:
  assumes "config_mri_t1_path_generator g1 = config_mri_t1_path_generator g2"
    and "config_mri_landmarks_kind g1 = config_mri_landmarks_kind g2"
  shows "run_forward ext g1 cfg subject session in_files w
       = run_forward ext g2 cfg subject session in_files w"
  unfolding run_forward_def forward_trans_module_dependence [OF assms] by (rule refl)

text \<open>
  Claim C10. When \<^verbatim>\<open>cfg.use_template_mri\<close> is set, the step prepares the transform with
  \<open>prepare_trans_template\<close>. The template must equal \<^verbatim>\<open>cfg.fs_subject\<close>, or the assertion
  fails. With the two equal, a subject other than \<open>fsaverage\<close> without coregistration
  adjustment raises a ValueError, and \<open>fsaverage\<close> without adjustment yields the path
  of the precomputed file \<^verbatim>\<open>fsaverage/bem/fsaverage-trans.fif\<close> under
  \<^verbatim>\<open>cfg.fs_subjects_dir\<close>, whatever the library's coregistration would do: it is not
  called.
\<close>

theorem template_trans_preparation:
  "cfg_use_template_mri cfg = Some template \<longrightarrow>
     forward_trans ext g w cfg info bids_path = prepare_trans_template ext w cfg info
     \<and> (template \<noteq> cfg_fs_subject cfg \<longrightarrow> prepare_trans_template ext w cfg info = Inl AssertionError)
     \<and> (template = cfg_fs_subject cfg \<and> cfg_fs_subject cfg \<noteq> ''fsaverage'' \<and> \<not> cfg_adjust_coreg cfg
          \<longrightarrow> (\<exists>m. prepare_trans_template ext w cfg info = Inl (ValueError m)))
     \<and> (template = cfg_fs_subject cfg \<and> cfg_fs_subject cfg = ''fsaverage'' \<and> \<not> cfg_adjust_coreg cfg
          \<longrightarrow> prepare_trans_template ext w cfg info
                = Inr (TransFile (cfg_fs_subjects_dir cfg @ [''fsaverage'', ''bem'', ''fsaverage-trans.fif''])))"
  by (simp add: forward_trans_def prepare_trans_template_def)

text \<open>
  The template \<open>fsaverage\<close> gives the file, the template \<open>colin27\<close> the ValueError, and a
  template that is not the FreeSurfer subject the assertion error.
\<close>

theorem template_trans_preparation_witness:
  "cfg_use_template_mri (template_cfg ''fsaverage'' False) = Some ''fsaverage''
   \<and> cfg_fs_subject (template_cfg ''fsaverage'' False) = ''fsaverage''
   \<and> \<not> cfg_adjust_coreg (template_cfg ''fsaverage'' False)
   \<and> forward_trans quiet_externals example_pipeline empty_forward_world (template_cfg ''fsaverage'' False) ()
        (forward_bids_path (template_cfg ''fsaverage'' False) ''01'' (Some ''a''))
      = Inr (TransFile [''derivatives'', ''freesurfer'', ''subjects'', ''fsaverage'', ''bem'',
                        ''fsaverage-trans.fif''])
   \<and> cfg_use_template_mri (template_cfg ''colin27'' False) = Some ''colin27''
   \<and> cfg_fs_subject (template_cfg ''colin27'' False) = ''colin27''
   \<and> \<not> cfg_adjust_coreg (template_cfg ''colin27'' False)
   \<and> (\<exists>m. forward_trans quiet_externals example_pipeline empty_forward_world (template_cfg ''colin27'' False) ()
              (forward_bids_path (template_cfg ''colin27'' False) ''01'' (Some ''a''))
            = Inl (ValueError m))
   \<and> cfg_use_template_mri ((template_cfg ''colin27'' False) \<lparr> cfg_fs_subject := ''sub-01'' \<rparr>) = Some ''colin27''
   \<and> prepare_trans_template quiet_externals empty_forward_world
        ((template_cfg ''colin27'' False) \<lparr> cfg_fs_subject := ''sub-01'' \<rparr>) ()
      = Inl AssertionError"
proof -
  note f = template_cfg_fields
  have 1: "forward_trans quiet_externals example_pipeline empty_forward_world (template_cfg ''fsaverage'' False) ()
        (forward_bids_path (template_cfg ''fsaverage'' False) ''01'' (Some ''a''))
      = Inr (TransFile [''derivatives'', ''freesurfer'', ''subjects'', ''fsaverage'', ''bem'',
                        ''fsaverage-trans.fif''])"
    using template_trans_preparation [where cfg = "template_cfg ''fsaverage'' False"
        and template = "''fsaverage''" and ext = quiet_externals and g = example_pipeline
        and w = empty_forward_world and info = "()"
        and bids_path = "forward_bids_path (template_cfg ''fsaverage'' False) ''01'' (Some ''a'')"]
    by (simp add: f)
  have 2: "\<exists>m. forward_trans quiet_externals example_pipeline empty_forward_world (template_cfg ''colin27'' False) ()
              (forward_bids_path (template_cfg ''colin27'' False) ''01'' (Some ''a''))
            = Inl (ValueError m)"
    using template_trans_preparation [where cfg = "template_cfg ''colin27'' False"
        and template = "''colin27''" and ext = quiet_externals and g = example_pipeline
        and w = empty_forward_world and info = "()"
        and bids_path = "forward_bids_path (template_cfg ''colin27'' False) ''01'' (Some ''a'')"]
    by (simp add: f)
  have 3: "prepare_trans_template quiet_externals empty_forward_world
        ((template_cfg ''colin27'' False) \<lparr> cfg_fs_subject := ''sub-01'' \<rparr>) ()
      = Inl AssertionError"
    using template_trans_preparation [where cfg = "(template_cfg ''colin27'' False) \<lparr> cfg_fs_subject := ''sub-01'' \<rparr>"
        and template = "''colin27''" and ext = quiet_externals
        and w = empty_forward_world and info = "()"]
    by (simp add: f)
  from 1 2 3 show ?thesis by (simp add: f)
qed


lemma input_resolution_hands_on_helper_error:
  "get_bem_conductivity g w cfg = (Inl e, w1)
     \<Longrightarrow> get_input_fnames_forward get_bem_conductivity g w cfg subject session = (Inl e, w1)"
  by (simp add: get_input_fnames_forward_def)



text \<open>
  Claim C5 does not hold of the code: \<open>prepare_trans\<close> reads
  \<^verbatim>\<open>config.mri_t1_path_generator\<close> and \<^verbatim>\<open>config.mri_landmarks_kind\<close> from the module,
  and \<open>get_config\<close> puts neither into the snapshot. Two module configurations that
  differ in the T1 path generator only build equal snapshots and resolve to the same
  inputs; with equal subject, session and resolved inputs the step body passes
  different arguments to \<^verbatim>\<open>get_head_mri_trans\<close>, and with a library that needs the T1
  path one run raises and the other returns.
\<close>

theorem step_body_reads_module_config:
  "get_config example_pipeline (Some ''01'') None = get_config t1_generator_pipeline (Some ''01'') None
   \<and> get_input_fnames_forward one_layer_helper example_pipeline empty_forward_world
        (get_config example_pipeline (Some ''01'') None) ''01'' (Some ''a'')
      = (Inr example_in_files, empty_forward_world)
   \<and> get_input_fnames_forward one_layer_helper t1_generator_pipeline empty_forward_world
        (get_config t1_generator_pipeline (Some ''01'') None) ''01'' (Some ''a'')
      = (Inr example_in_files, empty_forward_world)
   \<and> prepare_trans_request example_pipeline (get_config example_pipeline (Some ''01'') None)
        (forward_bids_path (get_config example_pipeline (Some ''01'') None) ''01'' (Some ''a''))
      \<noteq> prepare_trans_request t1_generator_pipeline (get_config example_pipeline (Some ''01'') None)
        (forward_bids_path (get_config example_pipeline (Some ''01'') None) ''01'' (Some ''a''))
   \<and> fst (run_forward needs_t1_externals example_pipeline (get_config example_pipeline (Some ''01'') None)
        ''01'' (Some ''a'') example_in_files empty_forward_world)
      = Inl (LibraryError ''no T1 image'')
   \<and> fst (run_forward needs_t1_externals t1_generator_pipeline (get_config example_pipeline (Some ''01'') None)
        ''01'' (Some ''a'') example_in_files empty_forward_world)
      = Inr [(''trans'', out_trans (get_config example_pipeline (Some ''01'') None) ''01'' (Some ''a'')),
             (''forward'', out_forward (get_config example_pipeline (Some ''01'') None) ''01'' (Some ''a''))]"
proof -
  have c: "cfg_use_template_mri (get_config example_pipeline (Some ''01'') None) = None"
    "cfg_runs (get_config example_pipeline (Some ''01'') None) = [Some ''01'']"
    by (simp_all add: get_config_def example_pipeline_def)
  have g: "config_mri_t1_path_generator example_pipeline = None"
    "config_mri_t1_path_generator t1_generator_pipeline = Some (\<lambda>bp. bp\<lparr> bp_session := None \<rparr>)"
    by (simp_all add: t1_generator_pipeline_def example_pipeline_def)
  have 0: "get_input_fnames_forward one_layer_helper example_pipeline empty_forward_world
        (get_config example_pipeline (Some ''01'') None) ''01'' (Some ''a'')
      = (Inr example_in_files, empty_forward_world)"
    "get_input_fnames_forward one_layer_helper t1_generator_pipeline empty_forward_world
        (get_config t1_generator_pipeline (Some ''01'') None) ''01'' (Some ''a'')
      = (Inr example_in_files, empty_forward_world)"
    unfolding same_snapshot [of "Some ''01''" None, symmetric] by (rule example_inputs)+
  have 1: "prepare_trans_request example_pipeline (get_config example_pipeline (Some ''01'') None)
        (forward_bids_path (get_config example_pipeline (Some ''01'') None) ''01'' (Some ''a''))
      \<noteq> prepare_trans_request t1_generator_pipeline (get_config example_pipeline (Some ''01'') None)
        (forward_bids_path (get_config example_pipeline (Some ''01'') None) ''01'' (Some ''a''))"
    by (simp add: prepare_trans_request_def t1_bids_path_of_def c g Let_def)
  have 2: "fst (run_forward needs_t1_externals example_pipeline (get_config example_pipeline (Some ''01'') None)
        ''01'' (Some ''a'') example_in_files empty_forward_world)
      = Inl (LibraryError ''no T1 image'')"
    by (simp add: example_in_files_def run_forward_def needs_t1_externals_def quiet_externals_def
        forward_trans_def prepare_trans_def prepare_trans_request_def t1_bids_path_of_def
        write_artifact_def c g Let_def)
  have 3: "fst (run_forward needs_t1_externals t1_generator_pipeline (get_config example_pipeline (Some ''01'') None)
        ''01'' (Some ''a'') example_in_files empty_forward_world)
      = Inr [(''trans'', out_trans (get_config example_pipeline (Some ''01'') None) ''01'' (Some ''a'')),
             (''forward'', out_forward (get_config example_pipeline (Some ''01'') None) ''01'' (Some ''a''))]"
    by (simp add: example_in_files_def run_forward_def needs_t1_externals_def quiet_externals_def
        forward_trans_def prepare_trans_def prepare_trans_request_def t1_bids_path_of_def
        write_artifact_def c g Let_def)
  from same_snapshot [of "Some ''01''" None] 0 1 2 3 show ?thesis by blast
qed

end
